theory Spec2Isabelle
  imports Complex_Main "HOL-Library.Char_ord" "HOL-Library.List_Lexorder"
begin

section \<open>Python values and exceptions\<close>

text \<open>
  The exceptions the two scripts can meet.  \<open>ValueError\<close> is what
  \<^verbatim>\<open>LabelEncoder.transform\<close> raises on an unseen label and what \<^verbatim>\<open>int\<close> raises on a
  string that is no integer literal; \<open>KeyError\<close> is a missing dictionary key or data
  frame column; \<open>IndexError\<close> an index out of range; \<open>TypeError\<close> a comparison of a
  string with a number; \<open>OSError\<close> a file that cannot be read.
\<close>

datatype exn = ValueError | KeyError | IndexError | TypeError | OSError

text \<open>
  A cell of a data frame, or a value handed to an encoder: the missing marker, a number
  or a string.  Numbers are integers here: the steps modelled only compare cells for
  equality and order, and the rounding of a number that no double holds is not
  modelled.
\<close>

datatype pyval = NaN | Num int | Str string

subsection \<open>The built-in \<^verbatim>\<open>int\<close>\<close>

definition is_space :: "char \<Rightarrow> bool" where
  "is_space c = (c \<in> set [CHR '' '', CHR 0x09, CHR 0x0A, CHR 0x0B, CHR 0x0C, CHR 0x0D])"

definition is_digit :: "char \<Rightarrow> bool" where
  "is_digit c = (48 \<le> (of_char c :: nat) \<and> (of_char c :: nat) \<le> 57)"

definition digit_val :: "char \<Rightarrow> int" where
  "digit_val c = int (of_char c) - 48"

definition strip :: "string \<Rightarrow> string" where
  "strip s = rev (dropWhile is_space (rev (dropWhile is_space s)))"

text \<open>
  The digits after the first one: a single underscore may stand between two digits.
\<close>

fun int_digits :: "int \<Rightarrow> string \<Rightarrow> int option" where
  "int_digits acc [] = Some acc"
| "int_digits acc [c] = (if is_digit c then Some (10 * acc + digit_val c) else None)"
| "int_digits acc (c # d # cs) =
     (if is_digit c then int_digits (10 * acc + digit_val c) (d # cs)
      else if c = CHR ''_'' \<and> is_digit d then int_digits (10 * acc + digit_val d) cs
      else None)"

text \<open>
  \<^verbatim>\<open>int(s)\<close> for a string: surrounding white space is dropped, one sign is allowed, and
  what remains must be decimal digits.  Only ASCII is read.
\<close>

definition int_of_str :: "string \<Rightarrow> exn + int" where
  "int_of_str s =
     (let t = strip s;
          neg = (case t of [] \<Rightarrow> False | c # _ \<Rightarrow> c = CHR ''-'');
          body = (case t of [] \<Rightarrow> []
                  | c # cs \<Rightarrow> if c = CHR ''-'' \<or> c = CHR ''+'' then cs else t)
      in case body of
           [] \<Rightarrow> Inl ValueError
         | c # cs \<Rightarrow>
             if is_digit c then
               (case int_digits (digit_val c) cs of
                  None \<Rightarrow> Inl ValueError
                | Some n \<Rightarrow> Inr (if neg then - n else n))
             else Inl ValueError)"

text \<open>
  \<^verbatim>\<open>int(v)\<close> for any value: a number is returned as it is, the missing marker cannot be
  converted.
\<close>

fun py_int :: "pyval \<Rightarrow> exn + int" where
  "py_int (Num n) = Inr n"
| "py_int (Str s) = int_of_str s"
| "py_int NaN = Inl ValueError"

section \<open>The Predictor (app.py)\<close>

subsection \<open>Dependents\<close>

text \<open>
  Line 45 of app.py: \<^verbatim>\<open>3 if dependents == "3+" else int(dependents)\<close>.
\<close>

definition dependents_code :: "pyval \<Rightarrow> exn + int" where
  "dependents_code dependents =
     (if dependents = Str ''3+'' then Inr 3 else py_int dependents)"

text \<open>
  Line 18 of train\_model.py: \<^verbatim>\<open>df.replace({'3+': 3})\<close>, on one cell.
\<close>

definition replace_3plus :: "pyval \<Rightarrow> pyval" where
  "replace_3plus v = (if v = Str ''3+'' then Num 3 else v)"

subsection \<open>Label encoders\<close>

text \<open>
  A fitted \<^verbatim>\<open>sklearn.preprocessing.LabelEncoder\<close>: the array \<^verbatim>\<open>classes_\<close> of the labels
  seen when it was fitted (the field \<open>classes\<close>).  The code of a label is its position in that array.
\<close>

record LabelEncoder =
  classes :: "pyval list"

fun index_of :: "'a \<Rightarrow> 'a list \<Rightarrow> nat option" where
  "index_of v [] = None"
| "index_of v (x # xs) =
     (if x = v then Some 0 else map_option Suc (index_of v xs))"

text \<open>
  \<^verbatim>\<open>le.transform(ys)\<close>: the codes of the labels, or \<open>ValueError\<close> (previously unseen
  labels) when one of them is not in \<^verbatim>\<open>classes_\<close>.
\<close>

fun transform :: "LabelEncoder \<Rightarrow> pyval list \<Rightarrow> exn + int list" where
  "transform le [] = Inr []"
| "transform le (y # ys) =
     (case index_of y (classes le) of
        None \<Rightarrow> Inl ValueError
      | Some i \<Rightarrow>
          (case transform le ys of
             Inl e \<Rightarrow> Inl e
           | Inr codes \<Rightarrow> Inr (int i # codes)))"

text \<open>The subscript \<^verbatim>\<open>[0]\<close> of a sequence.\<close>

definition first :: "'a list \<Rightarrow> exn + 'a" where
  "first xs = (case xs of [] \<Rightarrow> Inl IndexError | x # _ \<Rightarrow> Inr x)"

text \<open>The dictionary \<^verbatim>\<open>label_encoders\<close>, keyed by column name.\<close>

type_synonym encoders = "string \<rightharpoonup> LabelEncoder"

subsection \<open>The form\<close>

text \<open>
  What the widgets of lines 26 to 36 return: a select box returns one of its options, a
  number input with \<^verbatim>\<open>min_value=0\<close> an integer that is not negative.
\<close>

record form =
  gender :: string
  married :: string
  dependents :: string
  education :: string
  self_employed :: string
  applicant_income :: int
  coapplicant_income :: int
  loan_amount :: int
  loan_amount_term :: int
  credit_history :: int
  property_area :: string

definition gender_options :: "string list" where
  "gender_options = [''Male'', ''Female'']"

definition married_options :: "string list" where
  "married_options = [''No'', ''Yes'']"

definition dependents_options :: "string list" where
  "dependents_options = [''0'', ''1'', ''2'', ''3+'']"

definition education_options :: "string list" where
  "education_options = [''Graduate'', ''Not Graduate'']"

definition self_employed_options :: "string list" where
  "self_employed_options = [''No'', ''Yes'']"

definition loan_amount_term_options :: "int list" where
  "loan_amount_term_options = [360, 180, 120, 60]"

definition credit_history_options :: "int list" where
  "credit_history_options = [1, 0]"

definition property_area_options :: "string list" where
  "property_area_options = [''Urban'', ''Semiurban'', ''Rural'']"

definition from_widgets :: "form \<Rightarrow> bool" where
  "from_widgets f =
     (gender f \<in> set gender_options \<and>
      married f \<in> set married_options \<and>
      dependents f \<in> set dependents_options \<and>
      education f \<in> set education_options \<and>
      self_employed f \<in> set self_employed_options \<and>
      0 \<le> applicant_income f \<and>
      0 \<le> coapplicant_income f \<and>
      0 \<le> loan_amount f \<and>
      loan_amount_term f \<in> set loan_amount_term_options \<and>
      credit_history f \<in> set credit_history_options \<and>
      property_area f \<in> set property_area_options)"

subsection \<open>Building the feature row\<close>

definition feature_order :: "string list" where
  "feature_order =
     [''Gender'', ''Married'', ''Dependents'', ''Education'', ''Self_Employed'',
      ''ApplicantIncome'', ''CoapplicantIncome'', ''LoanAmount'',
      ''Loan_Amount_Term'', ''Credit_History'', ''Property_Area'']"

definition categorical_cols :: "string list" where
  "categorical_cols =
     [''Gender'', ''Married'', ''Education'', ''Self_Employed'', ''Property_Area'']"

text \<open>
  A data frame of one row: its columns in order, each with its value; \<open>None\<close> is the
  missing value that \<^verbatim>\<open>pd.DataFrame\<close> puts where the dictionary has no such key.
\<close>

type_synonym row = "(string \<times> int option) list"

definition DataFrame :: "(string \<rightharpoonup> int) \<Rightarrow> string list \<Rightarrow> row" where
  "DataFrame data columns = map (\<lambda>c. (c, data c)) columns"

text \<open>
  The expression of line 42:
  \<^verbatim>\<open>label_encoders[col].transform([value])[0] if col in label_encoders else 0\<close>.
\<close>

definition code_for :: "encoders \<Rightarrow> string \<Rightarrow> string \<Rightarrow> exn + int" where
  "code_for label_encoders col value =
     (case label_encoders col of
        None \<Rightarrow> Inr 0
      | Some le \<Rightarrow>
          (case transform le [Str value] of
             Inl e \<Rightarrow> Inl e
           | Inr codes \<Rightarrow> first codes))"

text \<open>
  The loop of lines 40 to 42 over the pairs of column and value: each code is stored
  in the dictionary \<^verbatim>\<open>data\<close>; an exception ends the loop.
\<close>

fun encode_loop ::
  "encoders \<Rightarrow> (string \<times> string) list \<Rightarrow> (string \<rightharpoonup> int) \<Rightarrow> exn + (string \<rightharpoonup> int)" where
  "encode_loop label_encoders [] data = Inr data"
| "encode_loop label_encoders ((col, value) # rest) data =
     (case code_for label_encoders col value of
        Inl e \<Rightarrow> Inl e
      | Inr code \<Rightarrow> encode_loop label_encoders rest (data(col \<mapsto> code)))"

definition categorical_values :: "form \<Rightarrow> string list" where
  "categorical_values f =
     [gender f, married f, education f, self_employed f, property_area f]"

definition user_input_features :: "encoders \<Rightarrow> form \<Rightarrow> exn + row" where
  "user_input_features label_encoders f =
     (case encode_loop label_encoders
             (zip categorical_cols (categorical_values f)) Map.empty of
        Inl e \<Rightarrow> Inl e
      | Inr data \<Rightarrow>
          (case dependents_code (Str (dependents f)) of
             Inl e \<Rightarrow> Inl e
           | Inr d \<Rightarrow>
               Inr (DataFrame
                      ((data(''Dependents'' \<mapsto> d)) ++
                         map_of [(''ApplicantIncome'', applicant_income f),
                                 (''CoapplicantIncome'', coapplicant_income f),
                                 (''LoanAmount'', loan_amount f),
                                 (''Loan_Amount_Term'', loan_amount_term f),
                                 (''Credit_History'', credit_history f)])
                      feature_order)))"

subsection \<open>The classifier\<close>

text \<open>
  The loaded model, as app.py uses it: an object with the two methods \<^verbatim>\<open>predict\<close> and
  \<^verbatim>\<open>predict_proba\<close>.  Each takes the data frame and returns one entry per row, or raises.
\<close>

record classifier =
  predict :: "row \<Rightarrow> exn + int list"
  predict_proba :: "row \<Rightarrow> exn + rat list list"

text \<open>The subscript \<^verbatim>\<open>[i]\<close> of a sequence, for an index that is not negative.\<close>

definition item :: "'a list \<Rightarrow> nat \<Rightarrow> exn + 'a" where
  "item xs i = (if i < length xs then Inr (xs ! i) else Inl IndexError)"

text \<open>
  Lines 63 and 64: the predicted label of the first row, and the probability of the
  second class times 100.  The product is taken exactly; line 64 rounds it to the
  nearest double, which leaves 0, 50 and 100 where they are.
\<close>

definition prediction_of :: "classifier \<Rightarrow> row \<Rightarrow> exn + (int \<times> rat)" where
  "prediction_of model input_df =
     (case predict model input_df of
        Inl e \<Rightarrow> Inl e
      | Inr labels \<Rightarrow>
          (case first labels of
             Inl e \<Rightarrow> Inl e
           | Inr prediction \<Rightarrow>
               (case predict_proba model input_df of
                  Inl e \<Rightarrow> Inl e
                | Inr probas \<Rightarrow>
                    (case first probas of
                       Inl e \<Rightarrow> Inl e
                     | Inr p0 \<Rightarrow>
                         (case item p0 1 of
                            Inl e \<Rightarrow> Inl e
                          | Inr p \<Rightarrow> Inr (prediction, p * 100))))))"

subsection \<open>What the page shows\<close>

text \<open>
  The messages that carry information: the two error boxes, the result line with the
  percentage, the chart with its three values, the echo of the row, and the four
  remarks.  Titles and headings are left out.
\<close>

datatype msg =
    LoadFailed exn
  | Approved rat
  | NotApproved rat
  | Chart "int option list"
  | Summary row
  | GoodCredit
  | PoorCredit
  | HighIncome
  | LargeLoan
  | PredictionFailed exn

text \<open>\<^verbatim>\<open>input_df[col][0]\<close>: the column must exist.\<close>

definition cell :: "row \<Rightarrow> string \<Rightarrow> exn + int option" where
  "cell input_df col =
     (case map_of input_df col of None \<Rightarrow> Inl KeyError | Some v \<Rightarrow> Inr v)"

text \<open>A comparison with the missing value is false.\<close>

definition gt :: "int option \<Rightarrow> int \<Rightarrow> bool" where
  "gt v n = (case v of None \<Rightarrow> False | Some x \<Rightarrow> n < x)"

text \<open>
  A piece of the \<^verbatim>\<open>try\<close> block: what it writes, and the exception that ended it, if any.
\<close>

type_synonym step = "msg list \<times> exn option"

definition step_result :: "classifier \<Rightarrow> row \<Rightarrow> step" where
  "step_result model input_df =
     (case prediction_of model input_df of
        Inl e \<Rightarrow> ([], Some e)
      | Inr (prediction, proba) \<Rightarrow>
          ([if prediction = 1 then Approved proba else NotApproved proba], None))"

definition step_chart :: "row \<Rightarrow> step" where
  "step_chart input_df =
     (case cell input_df ''ApplicantIncome'' of
        Inl e \<Rightarrow> ([], Some e)
      | Inr a \<Rightarrow>
          (case cell input_df ''CoapplicantIncome'' of
             Inl e \<Rightarrow> ([], Some e)
           | Inr c \<Rightarrow>
               (case cell input_df ''LoanAmount'' of
                  Inl e \<Rightarrow> ([], Some e)
                | Inr l \<Rightarrow> ([Chart [a, c, l]], None))))"

definition step_summary :: "row \<Rightarrow> step" where
  "step_summary input_df = ([Summary input_df], None)"

definition step_credit :: "row \<Rightarrow> step" where
  "step_credit input_df =
     (case cell input_df ''Credit_History'' of
        Inl e \<Rightarrow> ([], Some e)
      | Inr v \<Rightarrow> ([if v = Some 1 then GoodCredit else PoorCredit], None))"

definition step_income :: "row \<Rightarrow> step" where
  "step_income input_df =
     (case cell input_df ''ApplicantIncome'' of
        Inl e \<Rightarrow> ([], Some e)
      | Inr v \<Rightarrow> (if gt v 8000 then [HighIncome] else [], None))"

definition step_loan :: "row \<Rightarrow> step" where
  "step_loan input_df =
     (case cell input_df ''LoanAmount'' of
        Inl e \<Rightarrow> ([], Some e)
      | Inr v \<Rightarrow> (if gt v 300 then [LargeLoan] else [], None))"

text \<open>
  Running the pieces one after the other: the first exception ends the block, and what
  was written before it stays on the page.
\<close>

fun in_order :: "step list \<Rightarrow> step" where
  "in_order [] = ([], None)"
| "in_order ((msgs, Some e) # rest) = (msgs, Some e)"
| "in_order ((msgs, None) # rest) =
     (case in_order rest of (msgs', r) \<Rightarrow> (msgs @ msgs', r))"

definition try_block :: "classifier \<Rightarrow> row \<Rightarrow> step" where
  "try_block model input_df =
     in_order [step_result model input_df, step_chart input_df, step_summary input_df,
               step_credit input_df, step_income input_df, step_loan input_df]"

text \<open>
  Lines 62 to 98: the \<^verbatim>\<open>try\<close> block with its \<^verbatim>\<open>except Exception\<close> clause.
\<close>

definition handler :: "classifier \<Rightarrow> row \<Rightarrow> msg list" where
  "handler model input_df =
     (case try_block model input_df of
        (msgs, None) \<Rightarrow> msgs
      | (msgs, Some e) \<Rightarrow> msgs @ [PredictionFailed e])"

subsection \<open>One run of the script\<close>

text \<open>
  What \<^verbatim>\<open>joblib.load\<close> gives for each of the two files: the object, or the exception.
\<close>

record artifacts =
  loan_model_file :: "exn + classifier"
  label_encoders_file :: "exn + encoders"

text \<open>
  How a run ends: at the end of the script, at \<^verbatim>\<open>st.stop()\<close>, or with an exception that
  no \<^verbatim>\<open>except\<close> clause of the script caught.
\<close>

datatype status = Finished | Stopped | Raised exn

text \<open>
  The script from top to bottom.  The two loads are inside the first \<^verbatim>\<open>try\<close>; the call
  of \<^verbatim>\<open>user_input_features\<close> on line 58 is inside none; the prediction runs only when the
  button was pressed.
\<close>

definition script :: "artifacts \<Rightarrow> form \<Rightarrow> bool \<Rightarrow> msg list \<times> status" where
  "script files f button =
     (case loan_model_file files of
        Inl e \<Rightarrow> ([LoadFailed e], Stopped)
      | Inr model \<Rightarrow>
          (case label_encoders_file files of
             Inl e \<Rightarrow> ([LoadFailed e], Stopped)
           | Inr encs \<Rightarrow>
               (case user_input_features encs f of
                  Inl e \<Rightarrow> ([], Raised e)
                | Inr input_df \<Rightarrow>
                    if button then (handler model input_df, Finished)
                    else ([], Finished))))"

text \<open>
  A session: the script is run again, from the top, for every interaction.
\<close>

definition session :: "artifacts \<Rightarrow> (form \<times> bool) list \<Rightarrow> (msg list \<times> status) list" where
  "session files interactions = map (\<lambda>(f, button). script files f button) interactions"

subsection \<open>The random forest\<close>

text \<open>
  The model that train\_model.py fits and saves is a \<^verbatim>\<open>RandomForestClassifier\<close>.  Its
  \<^verbatim>\<open>predict_proba\<close> returns, for the row, the mean of the class distributions of its
  trees, which the library computes in floating point.  That mean is taken here as the
  forest gives it, one number per class: a floating point number is a rational number,
  and nothing is assumed on how the sum and the division were rounded.  Its
  \<^verbatim>\<open>predict\<close> calls \<^verbatim>\<open>predict_proba\<close> and returns the class at the \<^verbatim>\<open>argmax\<close> of the
  mean, which is the first index where the maximum stands.
\<close>

record forest =
  mean_proba :: "row \<Rightarrow> exn + rat list"
  forest_classes :: "int list"

definition forest_predict_proba :: "forest \<Rightarrow> row \<Rightarrow> exn + rat list list" where
  "forest_predict_proba rf input_df =
     (case mean_proba rf input_df of Inl e \<Rightarrow> Inl e | Inr p \<Rightarrow> Inr [p])"

fun argmax_from :: "nat \<Rightarrow> rat \<Rightarrow> nat \<Rightarrow> rat list \<Rightarrow> nat" where
  "argmax_from best best_value i [] = best"
| "argmax_from best best_value i (v # vs) =
     (if best_value < v then argmax_from i v (Suc i) vs
      else argmax_from best best_value (Suc i) vs)"

definition argmax :: "rat list \<Rightarrow> exn + nat" where
  "argmax vs = (case vs of [] \<Rightarrow> Inl ValueError | v # rest \<Rightarrow> Inr (argmax_from 0 v 1 rest))"

definition forest_predict :: "forest \<Rightarrow> row \<Rightarrow> exn + int list" where
  "forest_predict rf input_df =
     (case mean_proba rf input_df of
        Inl e \<Rightarrow> Inl e
      | Inr p \<Rightarrow>
          (case argmax p of
             Inl e \<Rightarrow> Inl e
           | Inr k \<Rightarrow>
               (case item (forest_classes rf) k of
                  Inl e \<Rightarrow> Inl e
                | Inr label \<Rightarrow> Inr [label])))"

definition RandomForestClassifier :: "forest \<Rightarrow> classifier" where
  "RandomForestClassifier rf =
     \<lparr>predict = forest_predict rf, predict_proba = forest_predict_proba rf\<rparr>"

section \<open>The Trainer (train\_model.py)\<close>

text \<open>
  The data frame read from the file: its columns in order, each a name and the cells of
  all rows.  An empty cell of the file is \<open>NaN\<close>.
\<close>

type_synonym frame = "(string \<times> pyval list) list"

subsection \<open>Comparing cells\<close>

text \<open>
  \<^verbatim>\<open>a < b\<close>: numbers with numbers, strings with strings; a string against a number is a
  \<open>TypeError\<close>; any comparison of numbers with the missing value is false.
\<close>

fun py_lt :: "pyval \<Rightarrow> pyval \<Rightarrow> exn + bool" where
  "py_lt (Num a) (Num b) = Inr (a < b)"
| "py_lt (Str a) (Str b) = Inr (a < b)"
| "py_lt (Str a) (Num b) = Inl TypeError"
| "py_lt (Num a) (Str b) = Inl TypeError"
| "py_lt (Str a) NaN = Inl TypeError"
| "py_lt NaN (Str b) = Inl TypeError"
| "py_lt NaN (Num b) = Inr False"
| "py_lt (Num a) NaN = Inr False"
| "py_lt NaN NaN = Inr False"

text \<open>The built-in \<^verbatim>\<open>min\<close>, with the smallest value so far.\<close>

fun min_from :: "pyval \<Rightarrow> pyval list \<Rightarrow> exn + pyval" where
  "min_from best [] = Inr best"
| "min_from best (v # vs) =
     (case py_lt v best of
        Inl e \<Rightarrow> Inl e
      | Inr smaller \<Rightarrow> min_from (if smaller then v else best) vs)"

definition py_min :: "pyval list \<Rightarrow> exn + pyval" where
  "py_min vs = (case vs of [] \<Rightarrow> Inl ValueError | v # rest \<Rightarrow> min_from v rest)"

text \<open>
  A column as \<^verbatim>\<open>read_csv\<close> returns it: apart from the missing cells, all numbers or all
  strings.
\<close>

fun is_num :: "pyval \<Rightarrow> bool" where
  "is_num (Num n) = True"
| "is_num v = False"

fun is_str :: "pyval \<Rightarrow> bool" where
  "is_str (Str s) = True"
| "is_str v = False"

definition csv_column :: "pyval list \<Rightarrow> bool" where
  "csv_column xs =
     (list_all (\<lambda>v. v = NaN \<or> is_num v) xs \<or> list_all (\<lambda>v. v = NaN \<or> is_str v) xs)"

subsection \<open>Imputation\<close>

text \<open>
  \<^verbatim>\<open>SimpleImputer(strategy='most_frequent')\<close>, column by column: the statistic of a
  column is the value that occurs most often among the cells that are not missing, the
  smallest of them when several occur equally often, and the missing value itself when
  no cell is observed.
\<close>

definition observed :: "pyval list \<Rightarrow> pyval list" where
  "observed xs = filter (\<lambda>v. v \<noteq> NaN) xs"

definition most_frequent_count :: "pyval list \<Rightarrow> nat" where
  "most_frequent_count xs = fold max (map (count_list xs) xs) 0"

definition most_frequent :: "pyval list \<Rightarrow> exn + pyval" where
  "most_frequent xs =
     (let obs = observed xs in
      if obs = [] then Inr NaN
      else py_min (filter (\<lambda>v. count_list obs v = most_frequent_count obs) (remdups obs)))"

text \<open>
  \<^verbatim>\<open>fit_transform\<close>: a column whose statistic is the missing value is dropped from the
  result; in every other column the missing cells are replaced by the statistic.
\<close>

fun fit_transform_imputer :: "frame \<Rightarrow> exn + frame" where
  "fit_transform_imputer [] = Inr []"
| "fit_transform_imputer ((c, xs) # cols) =
     (case most_frequent xs of
        Inl e \<Rightarrow> Inl e
      | Inr stat \<Rightarrow>
          (case fit_transform_imputer cols of
             Inl e \<Rightarrow> Inl e
           | Inr cols' \<Rightarrow>
               if stat = NaN then Inr cols'
               else Inr ((c, map (\<lambda>v. if v = NaN then stat else v) xs) # cols')))"

text \<open>
  Line 15: \<^verbatim>\<open>df.iloc[:, :] = imputer.fit_transform(df)\<close>.  The imputer refuses a frame
  with no column; the assignment refuses an array that has fewer columns than the
  frame; otherwise the frame keeps its column names and takes the new cells.
\<close>

definition impute :: "frame \<Rightarrow> exn + frame" where
  "impute df =
     (if df = [] then Inl ValueError
      else
        (case fit_transform_imputer df of
           Inl e \<Rightarrow> Inl e
         | Inr cols \<Rightarrow>
             if length cols \<noteq> length df then Inl ValueError
             else Inr (map (\<lambda>(c, col). (c, snd col)) (zip (map fst df) cols))))"

subsection \<open>Fitting the encoders\<close>

text \<open>
  \<^verbatim>\<open>LabelEncoder.fit\<close>: the classes are the distinct labels, sorted, with the missing
  value last if it occurs.  Sorting strings together with numbers is a \<open>TypeError\<close>.
\<close>

fun insort_py :: "pyval \<Rightarrow> pyval list \<Rightarrow> exn + pyval list" where
  "insort_py v [] = Inr [v]"
| "insort_py v (x # xs) =
     (case py_lt x v of
        Inl e \<Rightarrow> Inl e
      | Inr smaller \<Rightarrow>
          if smaller then
            (case insort_py v xs of Inl e \<Rightarrow> Inl e | Inr ys \<Rightarrow> Inr (x # ys))
          else Inr (v # x # xs))"

fun sorted_py :: "pyval list \<Rightarrow> exn + pyval list" where
  "sorted_py [] = Inr []"
| "sorted_py (v # vs) =
     (case sorted_py vs of Inl e \<Rightarrow> Inl e | Inr ys \<Rightarrow> insort_py v ys)"

definition fit :: "pyval list \<Rightarrow> exn + LabelEncoder" where
  "fit ys =
     (case sorted_py (remdups (observed ys)) of
        Inl e \<Rightarrow> Inl e
      | Inr labels \<Rightarrow>
          Inr \<lparr>classes = labels @ (if NaN \<in> set ys then [NaN] else [])\<rparr>)"

definition set_column :: "frame \<Rightarrow> string \<Rightarrow> pyval list \<Rightarrow> frame" where
  "set_column df col vals = map (\<lambda>(c, xs). if c = col then (c, vals) else (c, xs)) df"

definition encoded_cols :: "string list" where
  "encoded_cols =
     [''Gender'', ''Married'', ''Education'', ''Self_Employed'', ''Property_Area'',
      ''Loan_Status'']"

text \<open>
  The loop of lines 22 to 25: \<^verbatim>\<open>df[col]\<close> needs the column, \<^verbatim>\<open>fit_transform\<close> fits the
  encoder and returns the codes, which replace the column.
\<close>

fun fit_encoders :: "string list \<Rightarrow> frame \<Rightarrow> encoders \<Rightarrow> exn + (frame \<times> encoders)" where
  "fit_encoders [] df label_encoders = Inr (df, label_encoders)"
| "fit_encoders (col # rest) df label_encoders =
     (case map_of df col of
        None \<Rightarrow> Inl KeyError
      | Some ys \<Rightarrow>
          (case fit ys of
             Inl e \<Rightarrow> Inl e
           | Inr le \<Rightarrow>
               (case transform le ys of
                  Inl e \<Rightarrow> Inl e
                | Inr codes \<Rightarrow>
                    fit_encoders rest (set_column df col (map Num codes))
                      (label_encoders(col \<mapsto> le)))))"

subsection \<open>The script\<close>

definition drop_column :: "frame \<Rightarrow> string \<Rightarrow> exn + frame" where
  "drop_column df col =
     (if col \<in> set (map fst df) then Inr (filter (\<lambda>(c, xs). c \<noteq> col) df)
      else Inl KeyError)"

definition replace_all :: "frame \<Rightarrow> frame" where
  "replace_all df = map (\<lambda>(c, xs). (c, map replace_3plus xs)) df"

text \<open>
  Lines 10 to 25, from the frame that \<^verbatim>\<open>read_csv\<close> returned to the encoded frame and the
  dictionary of encoders.
\<close>

definition preprocess :: "frame \<Rightarrow> exn + (frame \<times> encoders)" where
  "preprocess csv =
     (case drop_column csv ''Loan_ID'' of
        Inl e \<Rightarrow> Inl e
      | Inr df \<Rightarrow>
          (case impute df of
             Inl e \<Rightarrow> Inl e
           | Inr df' \<Rightarrow> fit_encoders encoded_cols (replace_all df') Map.empty))"

text \<open>
  Lines 28 to 38.  The split and the fitting of the forest are a parameter: they take
  the features and the target and return the model, or raise.  What is saved is the
  model and the dictionary of encoders.
\<close>

definition train_model ::
  "(frame \<Rightarrow> pyval list \<Rightarrow> exn + 'm) \<Rightarrow> frame \<Rightarrow> exn + ('m \<times> encoders)" where
  "train_model fit_model csv =
     (case preprocess csv of
        Inl e \<Rightarrow> Inl e
      | Inr (df, label_encoders) \<Rightarrow>
          (case drop_column df ''Loan_Status'' of
             Inl e \<Rightarrow> Inl e
           | Inr X \<Rightarrow>
               (case map_of df ''Loan_Status'' of
                  None \<Rightarrow> Inl KeyError
                | Some y \<Rightarrow>
                    (case fit_model X y of
                       Inl e \<Rightarrow> Inl e
                     | Inr model \<Rightarrow> Inr (model, label_encoders)))))"

section \<open>Example inputs\<close>

text \<open>
  The first end-to-end scenario of the specification: the defaults of the form, with a
  married male graduate.
\<close>

definition scenario_1 :: form where
  "scenario_1 =
     \<lparr>gender = ''Male'', married = ''Yes'', dependents = ''0'', education = ''Graduate'',
      self_employed = ''No'', applicant_income = 5000, coapplicant_income = 2000,
      loan_amount = 100, loan_amount_term = 360, credit_history = 1,
      property_area = ''Urban''\<rparr>"

text \<open>The row of the first scenario under the dictionary \<open>two_encoders\<close> below.\<close>

definition scenario_1_df :: row where
  "scenario_1_df =
     [(''Gender'', Some 1), (''Married'', Some 0), (''Dependents'', Some 0),
      (''Education'', Some 0), (''Self_Employed'', Some 0),
      (''ApplicantIncome'', Some 5000), (''CoapplicantIncome'', Some 2000),
      (''LoanAmount'', Some 100), (''Loan_Amount_Term'', Some 360),
      (''Credit_History'', Some 1), (''Property_Area'', Some 2)]"

text \<open>
  A dictionary that holds encoders for two of the five categorical columns only.
\<close>

definition two_encoders :: encoders where
  "two_encoders =
     [''Gender'' \<mapsto> \<lparr>classes = [Str ''Female'', Str ''Male'']\<rparr>,
      ''Property_Area'' \<mapsto> \<lparr>classes = [Str ''Rural'', Str ''Semiurban'', Str ''Urban'']\<rparr>]"

text \<open>
  The encoders fitted on a data set in which no property lies in a semi-urban area.
\<close>

definition rural_urban_encoders :: encoders where
  "rural_urban_encoders =
     [''Gender'' \<mapsto> \<lparr>classes = [Str ''Female'', Str ''Male'']\<rparr>,
      ''Married'' \<mapsto> \<lparr>classes = [Str ''No'', Str ''Yes'']\<rparr>,
      ''Education'' \<mapsto> \<lparr>classes = [Str ''Graduate'', Str ''Not Graduate'']\<rparr>,
      ''Self_Employed'' \<mapsto> \<lparr>classes = [Str ''No'', Str ''Yes'']\<rparr>,
      ''Property_Area'' \<mapsto> \<lparr>classes = [Str ''Rural'', Str ''Urban'']\<rparr>,
      ''Loan_Status'' \<mapsto> \<lparr>classes = [Str ''N'', Str ''Y'']\<rparr>]"

text \<open>
  A forest over the two classes with pure leaves, half of its trees a stump that
  approves a good credit history and the other half a stump that approves an applicant
  income above 3000.  Its means are 0, one half or 1, which floating point holds
  exactly.
\<close>

definition stump_votes :: "row \<Rightarrow> exn + rat list" where
  "stump_votes input_df =
     (case cell input_df ''Credit_History'' of
        Inl e \<Rightarrow> Inl ValueError
      | Inr c \<Rightarrow>
          (case cell input_df ''ApplicantIncome'' of
             Inl e \<Rightarrow> Inl ValueError
           | Inr a \<Rightarrow>
               Inr (if gt c 0 \<and> gt a 3000 then [0, 1]
                    else if gt c 0 \<or> gt a 3000 then [1 / 2, 1 / 2]
                    else [1, 0])))"

definition two_trees :: forest where
  "two_trees = \<lparr>mean_proba = stump_votes, forest_classes = [0, 1]\<rparr>"

text \<open>The two artifacts, both loaded.\<close>

definition example_files :: artifacts where
  "example_files =
     \<lparr>loan_model_file = Inr (RandomForestClassifier two_trees),
      label_encoders_file = Inr two_encoders\<rparr>"

text \<open>What the page shows for the first scenario with these artifacts.\<close>

definition scenario_1_msgs :: "msg list" where
  "scenario_1_msgs =
     [Approved 100, Chart [Some 5000, Some 2000, Some 100], Summary scenario_1_df,
      GoodCredit]"

text \<open>The encoder file cannot be read.\<close>

definition unreadable_encoders :: artifacts where
  "unreadable_encoders =
     \<lparr>loan_model_file = Inr (RandomForestClassifier two_trees),
      label_encoders_file = Inl OSError\<rparr>"

text \<open>
  The artifacts of a training set without semi-urban properties, and a form on which
  the user chose the semi-urban area.
\<close>

definition rural_urban_files :: artifacts where
  "rural_urban_files =
     \<lparr>loan_model_file = Inr (RandomForestClassifier two_trees),
      label_encoders_file = Inr rural_urban_encoders\<rparr>"

definition semiurban_form :: form where
  "semiurban_form = scenario_1\<lparr>property_area := ''Semiurban''\<rparr>"

text \<open>
  A small training file: four applications, some cells empty, two of them with "3+"
  dependents, and no property in a semi-urban area.
\<close>

definition small_csv :: frame where
  "small_csv =
     [(''Loan_ID'', [Str ''LP001'', Str ''LP002'', Str ''LP003'', Str ''LP004'']),
      (''Gender'', [Str ''Male'', NaN, Str ''Female'', Str ''Male'']),
      (''Married'', [Str ''No'', Str ''Yes'', Str ''Yes'', NaN]),
      (''Dependents'', [Str ''0'', Str ''3+'', NaN, Str ''3+'']),
      (''Education'',
       [Str ''Graduate'', Str ''Not Graduate'', Str ''Graduate'', Str ''Graduate'']),
      (''Self_Employed'', [Str ''No'', Str ''No'', NaN, Str ''Yes'']),
      (''ApplicantIncome'', [Num 5849, Num 4583, Num 3000, Num 2583]),
      (''LoanAmount'', [NaN, Num 128, Num 66, Num 128]),
      (''Property_Area'', [Str ''Urban'', Str ''Rural'', Str ''Urban'', Str ''Urban'']),
      (''Loan_Status'', [Str ''Y'', Str ''N'', Str ''Y'', Str ''Y''])]"

text \<open>The same file without the identifier, and after the imputation.\<close>

definition small_df :: frame where
  "small_df = tl small_csv"

definition small_imputed :: frame where
  "small_imputed =
     [(''Gender'', [Str ''Male'', Str ''Male'', Str ''Female'', Str ''Male'']),
      (''Married'', [Str ''No'', Str ''Yes'', Str ''Yes'', Str ''Yes'']),
      (''Dependents'', [Str ''0'', Str ''3+'', Str ''3+'', Str ''3+'']),
      (''Education'',
       [Str ''Graduate'', Str ''Not Graduate'', Str ''Graduate'', Str ''Graduate'']),
      (''Self_Employed'', [Str ''No'', Str ''No'', Str ''No'', Str ''Yes'']),
      (''ApplicantIncome'', [Num 5849, Num 4583, Num 3000, Num 2583]),
      (''LoanAmount'', [Num 128, Num 128, Num 66, Num 128]),
      (''Property_Area'', [Str ''Urban'', Str ''Rural'', Str ''Urban'', Str ''Urban'']),
      (''Loan_Status'', [Str ''Y'', Str ''N'', Str ''Y'', Str ''Y''])]"

text \<open>The frame after the encoding loop.\<close>

definition small_encoded :: frame where
  "small_encoded =
     [(''Gender'', [Num 1, Num 1, Num 0, Num 1]),
      (''Married'', [Num 0, Num 1, Num 1, Num 1]),
      (''Dependents'', [Str ''0'', Num 3, Num 3, Num 3]),
      (''Education'', [Num 0, Num 1, Num 0, Num 0]),
      (''Self_Employed'', [Num 0, Num 0, Num 0, Num 1]),
      (''ApplicantIncome'', [Num 5849, Num 4583, Num 3000, Num 2583]),
      (''LoanAmount'', [Num 128, Num 128, Num 66, Num 128]),
      (''Property_Area'', [Num 1, Num 0, Num 1, Num 1]),
      (''Loan_Status'', [Num 1, Num 0, Num 1, Num 1])]"

text \<open>A fitting step that returns the forest \<open>two_trees\<close>.\<close>

definition fit_two_trees :: "frame \<Rightarrow> pyval list \<Rightarrow> exn + forest" where
  "fit_two_trees X y = Inr two_trees"





text \<open>
  A forest fitted on a training set in which every loan has the same status: there is
  one class, and every distribution has one entry.
\<close>

definition one_class :: forest where
  "one_class = \<lparr>mean_proba = (\<lambda>input_df. Inr [1]), forest_classes = [0]\<rparr>"

definition one_class_files :: artifacts where
  "one_class_files =
     \<lparr>loan_model_file = Inr (RandomForestClassifier one_class),
      label_encoders_file = Inr two_encoders\<rparr>"

text \<open>
  An applicant with a good credit history, an income of 9000 and a loan of 350: the
  row, and what the page shows for it with the artifacts loaded above.
\<close>

definition high_income :: form where
  "high_income = scenario_1\<lparr>applicant_income := 9000, loan_amount := 350\<rparr>"

definition high_income_df :: row where
  "high_income_df =
     [(''Gender'', Some 1), (''Married'', Some 0), (''Dependents'', Some 0),
      (''Education'', Some 0), (''Self_Employed'', Some 0),
      (''ApplicantIncome'', Some 9000), (''CoapplicantIncome'', Some 2000),
      (''LoanAmount'', Some 350), (''Loan_Amount_Term'', Some 360),
      (''Credit_History'', Some 1), (''Property_Area'', Some 2)]"

definition high_income_msgs :: "msg list" where
  "high_income_msgs =
     [Approved 100, Chart [Some 9000, Some 2000, Some 350], Summary high_income_df,
      GoodCredit, HighIncome, LargeLoan]"

section \<open>Properties\<close>

subsection \<open>Normalising the number of dependents\<close>

lemmas int_of_str_simps =
  int_of_str_def strip_def is_space_def is_digit_def digit_val_def

text \<open>
  C7.  The normalisation of the Predictor sends the string "3+" to 3 and each of "0",
  "1" and "2" to the integer it spells.  Normalising again what it returned changes
  nothing: an integer is returned as it is, so "3+" gives 3 and 3 gives 3.  The
  replacement of the Trainer sends "3+" to 3 and is idempotent on every cell.
\<close>

theorem dependents_normalization:
  "dependents_code (Str ''3+'') = Inr 3 \<and>
   dependents_code (Str ''0'') = Inr 0 \<and>
   dependents_code (Str ''1'') = Inr 1 \<and>
   dependents_code (Str ''2'') = Inr 2 \<and>
   dependents_code (Num 3) = Inr 3 \<and>
   (\<forall>n. dependents_code (Num n) = Inr n) \<and>
   replace_3plus (Str ''3+'') = Num 3 \<and>
   replace_3plus (Num 3) = Num 3 \<and>
   (\<forall>v. replace_3plus (replace_3plus v) = replace_3plus v)"
  by (simp add: dependents_code_def replace_3plus_def int_of_str_simps)

subsection \<open>The encoding loop\<close>

lemma encode_loop_other:
  "encode_loop encs kvs data = Inr data' \<Longrightarrow> col \<notin> fst ` set kvs \<Longrightarrow> data' col = data col"
  by (induction encs kvs data rule: encode_loop.induct) (auto split: sum.splits)

lemma encode_loop_Inr:
  "encode_loop encs kvs data = Inr data' \<Longrightarrow> distinct (map fst kvs) \<Longrightarrow> (col, value) \<in> set kvs \<Longrightarrow>
   \<exists>c. code_for encs col value = Inr c \<and> data' col = Some c"
proof (induction encs kvs data rule: encode_loop.induct)
  case (1 encs data)
  then show ?case by simp
next
  case (2 encs k v rest data)
  from "2.prems"(1) obtain c where c: "code_for encs k v = Inr c"
    and rest: "encode_loop encs rest (data(k \<mapsto> c)) = Inr data'"
    by (auto split: sum.splits)
  show ?case
  proof (cases "(col, value) = (k, v)")
    case True
    with "2.prems"(2) have "col \<notin> fst ` set rest" by auto
    from encode_loop_other [OF rest this] True c show ?thesis by simp
  next
    case False
    with "2.prems" have "(col, value) \<in> set rest" "distinct (map fst rest)" by auto
    with "2.IH" [OF c rest] show ?thesis by blast
  qed
qed

lemma encode_loop_Inl:
  "encode_loop encs kvs data = Inl e \<Longrightarrow> \<exists>(col, value) \<in> set kvs. code_for encs col value = Inl e"
  by (induction encs kvs data rule: encode_loop.induct) (auto split: sum.splits)

lemma encode_loop_cong:
  "\<forall>(col, value) \<in> set kvs. encs col = encs' col \<Longrightarrow>
   encode_loop encs kvs data = encode_loop encs' kvs data"
  by (induction encs kvs data rule: encode_loop.induct) (auto simp: code_for_def split: sum.splits)

lemma code_for_cases:
  "code_for encs col value =
     (case encs col of
        None \<Rightarrow> Inr 0
      | Some le \<Rightarrow>
          (case index_of (Str value) (classes le) of
             None \<Rightarrow> Inl ValueError
           | Some i \<Rightarrow> Inr (int i)))"
  by (simp add: code_for_def first_def split: option.splits)

lemma code_for_Inl:
  "code_for encs col value = Inl e \<Longrightarrow>
     \<exists>le. encs col = Some le \<and> transform le [Str value] = Inl e"
  by (auto simp: code_for_def first_def split: option.splits sum.splits list.splits)

lemma zip_cols:
  "zip categorical_cols (categorical_values f) =
     [(''Gender'', gender f), (''Married'', married f), (''Education'', education f),
      (''Self_Employed'', self_employed f), (''Property_Area'', property_area f)]"
  by (simp add: categorical_cols_def categorical_values_def)

lemma distinct_cols: "distinct (map fst (zip categorical_cols (categorical_values f)))"
  by (simp add: zip_cols)

lemma user_input_features_Inr:
  "user_input_features encs f = Inr input_df \<longleftrightarrow>
     (\<exists>data d. encode_loop encs (zip categorical_cols (categorical_values f)) Map.empty = Inr data \<and>
        dependents_code (Str (dependents f)) = Inr d \<and>
        input_df =
          [(''Gender'', data ''Gender''), (''Married'', data ''Married''),
           (''Dependents'', Some d), (''Education'', data ''Education''),
           (''Self_Employed'', data ''Self_Employed''),
           (''ApplicantIncome'', Some (applicant_income f)),
           (''CoapplicantIncome'', Some (coapplicant_income f)),
           (''LoanAmount'', Some (loan_amount f)),
           (''Loan_Amount_Term'', Some (loan_amount_term f)),
           (''Credit_History'', Some (credit_history f)),
           (''Property_Area'', data ''Property_Area'')])"
  by (auto simp: user_input_features_def DataFrame_def feature_order_def map_add_def split: sum.splits)

lemma user_input_features_Inl:
  "user_input_features encs f = Inl e \<Longrightarrow>
     (\<exists>(col, value) \<in> set (zip categorical_cols (categorical_values f)). code_for encs col value = Inl e)
     \<or> dependents_code (Str (dependents f)) = Inl e"
  by (auto simp: user_input_features_def split: sum.splits dest: encode_loop_Inl)

lemma map_of_DataFrame:
  "map_of (DataFrame data columns) col = (if col \<in> set columns then Some (data col) else None)"
  by (induction columns) (auto simp: DataFrame_def)

lemma cell_DataFrame:
  "cell (DataFrame data columns) col =
     (if col \<in> set columns then Inr (data col) else Inl KeyError)"
  by (simp add: cell_def map_of_DataFrame)

lemma categorical_in_feature_order:
  "col \<in> set categorical_cols \<Longrightarrow> col \<in> set feature_order"
  by (auto simp: categorical_cols_def feature_order_def)

lemma categorical_not_numeric:
  "col \<in> set categorical_cols \<Longrightarrow>
     col \<notin> set [''Dependents'', ''ApplicantIncome'', ''CoapplicantIncome'', ''LoanAmount'',
                 ''Loan_Amount_Term'', ''Credit_History'']"
  by (auto simp: categorical_cols_def)

lemma categorical_cell:
  assumes "user_input_features encs f = Inr input_df"
    and "(col, value) \<in> set (zip categorical_cols (categorical_values f))"
  shows "\<exists>c. code_for encs col value = Inr c \<and> cell input_df col = Inr (Some c)"
proof -
  from assms(1) obtain data d where
    data: "encode_loop encs (zip categorical_cols (categorical_values f)) Map.empty = Inr data"
    and df: "input_df = DataFrame
                      ((data(''Dependents'' \<mapsto> d)) ++
                         map_of [(''ApplicantIncome'', applicant_income f),
                                 (''CoapplicantIncome'', coapplicant_income f),
                                 (''LoanAmount'', loan_amount f),
                                 (''Loan_Amount_Term'', loan_amount_term f),
                                 (''Credit_History'', credit_history f)])
                      feature_order"
    by (auto simp: user_input_features_def split: sum.splits)
  from encode_loop_Inr [OF data distinct_cols assms(2)]
  obtain c where c: "code_for encs col value = Inr c" "data col = Some c" by blast
  from assms(2) have col: "col \<in> set categorical_cols" by (auto dest: set_zip_leftD)
  from categorical_not_numeric [OF col] have "cell input_df col = Inr (data col)"
    unfolding df cell_DataFrame
    by (simp add: categorical_in_feature_order [OF col] map_add_def)
  with c show ?thesis by simp
qed

text \<open>
  C2.  For each of the five categorical fields Gender, Married, Education,
  Self\_Employed and Property\_Area: when the dictionary of encoders has no encoder
  under that name, the field of the row is the code 0; when it has one, the field is
  the position of the submitted label among that encoder's classes, which is what its
  \<^verbatim>\<open>transform\<close> returns.  A missing encoder is never the reason of a failure: when
  the row cannot be built, a registered encoder refused its label or the number of
  dependents could not be read.
\<close>

theorem missing_encoder_defaults_to_zero:
  "(user_input_features encs f = Inr input_df \<longrightarrow>
      (\<forall>(col, value) \<in> set (zip categorical_cols (categorical_values f)).
          (encs col = None \<longrightarrow> cell input_df col = Inr (Some 0)) \<and>
          (\<forall>le. encs col = Some le \<longrightarrow>
             (\<exists>i. index_of (Str value) (classes le) = Some i \<and>
                  transform le [Str value] = Inr [int i] \<and>
                  cell input_df col = Inr (Some (int i)))))) \<and>
   (user_input_features encs f = Inl e \<longrightarrow>
      (\<exists>(col, value) \<in> set (zip categorical_cols (categorical_values f)).
          \<exists>le. encs col = Some le \<and> transform le [Str value] = Inl e)
      \<or> dependents_code (Str (dependents f)) = Inl e)"
proof (intro conjI impI)
  assume ok: "user_input_features encs f = Inr input_df"
  show "\<forall>(col, value) \<in> set (zip categorical_cols (categorical_values f)).
          (encs col = None \<longrightarrow> cell input_df col = Inr (Some 0)) \<and>
          (\<forall>le. encs col = Some le \<longrightarrow>
             (\<exists>i. index_of (Str value) (classes le) = Some i \<and>
                  transform le [Str value] = Inr [int i] \<and>
                  cell input_df col = Inr (Some (int i))))"
  proof (clarify, intro conjI impI allI)
    fix col "value"
    assume m: "(col, value) \<in> set (zip categorical_cols (categorical_values f))"
    from categorical_cell [OF ok m]
    obtain c where c: "code_for encs col value = Inr c" "cell input_df col = Inr (Some c)"
      by blast
    { assume "encs col = None"
      with c show "cell input_df col = Inr (Some 0)" by (simp add: code_for_cases) }
    { fix le assume "encs col = Some le"
      with c show "\<exists>i. index_of (Str value) (classes le) = Some i \<and>
                  transform le [Str value] = Inr [int i] \<and>
                  cell input_df col = Inr (Some (int i))"
        by (auto simp: code_for_cases split: option.splits) }
  qed
next
  assume "user_input_features encs f = Inl e"
  from user_input_features_Inl [OF this]
  show "(\<exists>(col, value) \<in> set (zip categorical_cols (categorical_values f)).
          \<exists>le. encs col = Some le \<and> transform le [Str value] = Inl e)
      \<or> dependents_code (Str (dependents f)) = Inl e"
    by (fastforce dest: code_for_Inl)
qed

lemma scenario_1_row:
  "user_input_features two_encoders scenario_1 = Inr scenario_1_df"
  by (simp add: user_input_features_def two_encoders_def scenario_1_def scenario_1_df_def
      zip_cols code_for_def first_def dependents_code_def int_of_str_simps DataFrame_def
      feature_order_def)

theorem missing_encoder_defaults_to_zero_witness:
  "user_input_features two_encoders scenario_1 = Inr scenario_1_df \<and>
   (''Married'', ''Yes'') \<in> set (zip categorical_cols (categorical_values scenario_1)) \<and>
   two_encoders ''Married'' = None \<and>
   cell scenario_1_df ''Married'' = Inr (Some 0) \<and>
   (''Gender'', ''Male'') \<in> set (zip categorical_cols (categorical_values scenario_1)) \<and>
   two_encoders ''Gender'' = Some \<lparr>classes = [Str ''Female'', Str ''Male'']\<rparr> \<and>
   transform \<lparr>classes = [Str ''Female'', Str ''Male'']\<rparr> [Str ''Male''] = Inr [1] \<and>
   cell scenario_1_df ''Gender'' = Inr (Some 1)"
proof -
  have members:
    "(''Married'', ''Yes'') \<in> set (zip categorical_cols (categorical_values scenario_1))"
    "(''Gender'', ''Male'') \<in> set (zip categorical_cols (categorical_values scenario_1))"
    by (simp_all add: zip_cols scenario_1_def)
  have encs: "two_encoders ''Married'' = None"
    "two_encoders ''Gender'' = Some \<lparr>classes = [Str ''Female'', Str ''Male'']\<rparr>"
    by (simp_all add: two_encoders_def)
  from missing_encoder_defaults_to_zero [of two_encoders scenario_1 scenario_1_df ValueError]
    scenario_1_row members
  have "cell scenario_1_df ''Married'' = Inr (Some 0)"
    and "\<exists>i. index_of (Str ''Male'') [Str ''Female'', Str ''Male''] = Some i \<and>
           transform \<lparr>classes = [Str ''Female'', Str ''Male'']\<rparr> [Str ''Male''] = Inr [int i] \<and>
           cell scenario_1_df ''Gender'' = Inr (Some (int i))"
    using encs by fastforce+
  with scenario_1_row members encs show ?thesis by auto
qed

subsection \<open>The row and the handler\<close>

lemma cells:
  assumes "user_input_features encs f = Inr input_df"
  shows "cell input_df ''ApplicantIncome'' = Inr (Some (applicant_income f))"
    and "cell input_df ''CoapplicantIncome'' = Inr (Some (coapplicant_income f))"
    and "cell input_df ''LoanAmount'' = Inr (Some (loan_amount f))"
    and "cell input_df ''Credit_History'' = Inr (Some (credit_history f))"
  using assms by (auto simp: user_input_features_Inr cell_def)

lemma try_block_row:
  assumes "user_input_features encs f = Inr input_df"
  shows "try_block model input_df =
     (case prediction_of model input_df of
        Inl e \<Rightarrow> ([], Some e)
      | Inr (prediction, proba) \<Rightarrow>
          ([if prediction = 1 then Approved proba else NotApproved proba,
            Chart [Some (applicant_income f), Some (coapplicant_income f), Some (loan_amount f)],
            Summary input_df,
            if credit_history f = 1 then GoodCredit else PoorCredit]
           @ (if 8000 < applicant_income f then [HighIncome] else [])
           @ (if 300 < loan_amount f then [LargeLoan] else []), None))"
  by (simp add: try_block_def step_result_def step_chart_def step_summary_def step_credit_def
      step_income_def step_loan_def cells [OF assms] gt_def split: sum.splits prod.splits)

lemma handler_row:
  assumes "user_input_features encs f = Inr input_df"
  shows "handler model input_df =
     (case prediction_of model input_df of
        Inl e \<Rightarrow> [PredictionFailed e]
      | Inr (prediction, proba) \<Rightarrow>
          [if prediction = 1 then Approved proba else NotApproved proba,
            Chart [Some (applicant_income f), Some (coapplicant_income f), Some (loan_amount f)],
            Summary input_df,
            if credit_history f = 1 then GoodCredit else PoorCredit]
           @ (if 8000 < applicant_income f then [HighIncome] else [])
           @ (if 300 < loan_amount f then [LargeLoan] else []))"
  by (simp add: handler_def try_block_row [OF assms] split: sum.splits prod.splits)

lemma script_loaded:
  assumes "loan_model_file files = Inr model" and "label_encoders_file files = Inr encs"
  shows "script files f button =
     (case user_input_features encs f of
        Inl e \<Rightarrow> ([], Raised e)
      | Inr input_df \<Rightarrow>
          if button then (handler model input_df, Finished) else ([], Finished))"
  using assms by (simp add: script_def)

lemma script_Finished:
  assumes "loan_model_file files = Inr model" and "label_encoders_file files = Inr encs"
    and "script files f True = (msgs, Finished)"
  shows "\<exists>input_df. user_input_features encs f = Inr input_df \<and> msgs = handler model input_df"
  using assms(3) unfolding script_loaded [OF assms(1,2)] by (auto split: sum.splits)

lemma row_complete:
  assumes "user_input_features encs f = Inr input_df"
  shows "map fst input_df = feature_order" and "list_all (\<lambda>(c, v). v \<noteq> None) input_df"
proof -
  from assms obtain data d where
    data: "encode_loop encs (zip categorical_cols (categorical_values f)) Map.empty = Inr data"
    and df: "input_df =
          [(''Gender'', data ''Gender''), (''Married'', data ''Married''),
           (''Dependents'', Some d), (''Education'', data ''Education''),
           (''Self_Employed'', data ''Self_Employed''),
           (''ApplicantIncome'', Some (applicant_income f)),
           (''CoapplicantIncome'', Some (coapplicant_income f)),
           (''LoanAmount'', Some (loan_amount f)),
           (''Loan_Amount_Term'', Some (loan_amount_term f)),
           (''Credit_History'', Some (credit_history f)),
           (''Property_Area'', data ''Property_Area'')]"
    unfolding user_input_features_Inr by blast
  show "map fst input_df = feature_order" by (simp add: df feature_order_def)
  have some: "data col \<noteq> None" if "(col, value) \<in> set (zip categorical_cols (categorical_values f))"
    for col "value"
    using encode_loop_Inr [OF data distinct_cols that] by auto
  have "data ''Gender'' \<noteq> None" by (rule some [of _ "gender f"]) (simp add: zip_cols)
  moreover have "data ''Married'' \<noteq> None" by (rule some [of _ "married f"]) (simp add: zip_cols)
  moreover have "data ''Education'' \<noteq> None" by (rule some [of _ "education f"]) (simp add: zip_cols)
  moreover have "data ''Self_Employed'' \<noteq> None"
    by (rule some [of _ "self_employed f"]) (simp add: zip_cols)
  moreover have "data ''Property_Area'' \<noteq> None"
    by (rule some [of _ "property_area f"]) (simp add: zip_cols)
  ultimately show "list_all (\<lambda>(c, v). v \<noteq> None) input_df" by (simp add: df)
qed

subsection \<open>The example run\<close>

lemma scenario_1_prediction:
  "prediction_of (RandomForestClassifier two_trees) scenario_1_df = Inr (1, 100)"
  by (simp add: prediction_of_def RandomForestClassifier_def forest_predict_def
      forest_predict_proba_def two_trees_def stump_votes_def scenario_1_df_def cell_def
      gt_def item_def argmax_def first_def)

lemma scenario_1_run: "script example_files scenario_1 True = (scenario_1_msgs, Finished)"
  by (simp add: script_def example_files_def scenario_1_row handler_row [OF scenario_1_row]
      scenario_1_prediction scenario_1_msgs_def) (simp add: scenario_1_def)

subsection \<open>The order of the columns\<close>

lemma row_values:
  assumes "user_input_features encs f = Inr input_df"
  shows "\<exists>g m d e s a.
           code_for encs ''Gender'' (gender f) = Inr g \<and>
           code_for encs ''Married'' (married f) = Inr m \<and>
           dependents_code (Str (dependents f)) = Inr d \<and>
           code_for encs ''Education'' (education f) = Inr e \<and>
           code_for encs ''Self_Employed'' (self_employed f) = Inr s \<and>
           code_for encs ''Property_Area'' (property_area f) = Inr a \<and>
           input_df =
             [(''Gender'', Some g), (''Married'', Some m), (''Dependents'', Some d),
              (''Education'', Some e), (''Self_Employed'', Some s),
              (''ApplicantIncome'', Some (applicant_income f)),
              (''CoapplicantIncome'', Some (coapplicant_income f)),
              (''LoanAmount'', Some (loan_amount f)),
              (''Loan_Amount_Term'', Some (loan_amount_term f)),
              (''Credit_History'', Some (credit_history f)),
              (''Property_Area'', Some a)]"
proof -
  from assms obtain data d where
    data: "encode_loop encs (zip categorical_cols (categorical_values f)) Map.empty = Inr data"
    and d: "dependents_code (Str (dependents f)) = Inr d"
    and df: "input_df =
          [(''Gender'', data ''Gender''), (''Married'', data ''Married''),
           (''Dependents'', Some d), (''Education'', data ''Education''),
           (''Self_Employed'', data ''Self_Employed''),
           (''ApplicantIncome'', Some (applicant_income f)),
           (''CoapplicantIncome'', Some (coapplicant_income f)),
           (''LoanAmount'', Some (loan_amount f)),
           (''Loan_Amount_Term'', Some (loan_amount_term f)),
           (''Credit_History'', Some (credit_history f)),
           (''Property_Area'', data ''Property_Area'')]"
    unfolding user_input_features_Inr by blast
  have code: "\<exists>c. code_for encs col value = Inr c \<and> data col = Some c"
    if "(col, value) \<in> set (zip categorical_cols (categorical_values f))" for col "value"
    by (rule encode_loop_Inr [OF data distinct_cols that])
  obtain g where g: "code_for encs ''Gender'' (gender f) = Inr g" "data ''Gender'' = Some g"
    using code [of "''Gender''" "gender f"] by (auto simp: zip_cols)
  obtain m where m: "code_for encs ''Married'' (married f) = Inr m" "data ''Married'' = Some m"
    using code [of "''Married''" "married f"] by (auto simp: zip_cols)
  obtain e where e: "code_for encs ''Education'' (education f) = Inr e"
    "data ''Education'' = Some e"
    using code [of "''Education''" "education f"] by (auto simp: zip_cols)
  obtain s where s: "code_for encs ''Self_Employed'' (self_employed f) = Inr s"
    "data ''Self_Employed'' = Some s"
    using code [of "''Self_Employed''" "self_employed f"] by (auto simp: zip_cols)
  obtain a where a: "code_for encs ''Property_Area'' (property_area f) = Inr a"
    "data ''Property_Area'' = Some a"
    using code [of "''Property_Area''" "property_area f"] by (auto simp: zip_cols)
  from df g(2) m(2) e(2) s(2) a(2)
  have "input_df =
             [(''Gender'', Some g), (''Married'', Some m), (''Dependents'', Some d),
              (''Education'', Some e), (''Self_Employed'', Some s),
              (''ApplicantIncome'', Some (applicant_income f)),
              (''CoapplicantIncome'', Some (coapplicant_income f)),
              (''LoanAmount'', Some (loan_amount f)),
              (''Loan_Amount_Term'', Some (loan_amount_term f)),
              (''Credit_History'', Some (credit_history f)),
              (''Property_Area'', Some a)]"
    by (simp only:)
  with g(1) m(1) d e(1) s(1) a(1) show ?thesis
    by (intro exI [of _ g] exI [of _ m] exI [of _ d] exI [of _ e] exI [of _ s] exI [of _ a]
        conjI)
qed

text \<open>
  C3.  Whenever a submission reaches the classifier, the frame handed to it is the
  single row of eleven columns Gender, Married, Dependents, Education, Self\_Employed,
  ApplicantIncome, CoapplicantIncome, LoanAmount, Loan\_Amount\_Term, Credit\_History,
  Property\_Area, in this order, and each column holds the value of its own field: the
  code that line 42 gives the submitted label for the five categorical columns, the
  normalised number of dependents, and the submitted number for the five others.
\<close>

theorem feature_vector_order:
  assumes "loan_model_file files = Inr model" and "label_encoders_file files = Inr encs"
    and "script files f True = (msgs, Finished)"
  shows "\<exists>input_df. user_input_features encs f = Inr input_df \<and>
           msgs = handler model input_df \<and>
           map fst input_df =
             [''Gender'', ''Married'', ''Dependents'', ''Education'', ''Self_Employed'',
              ''ApplicantIncome'', ''CoapplicantIncome'', ''LoanAmount'',
              ''Loan_Amount_Term'', ''Credit_History'', ''Property_Area''] \<and>
           list_all (\<lambda>(c, v). v \<noteq> None) input_df \<and>
           (\<exists>g m d e s a.
              code_for encs ''Gender'' (gender f) = Inr g \<and>
              code_for encs ''Married'' (married f) = Inr m \<and>
              dependents_code (Str (dependents f)) = Inr d \<and>
              code_for encs ''Education'' (education f) = Inr e \<and>
              code_for encs ''Self_Employed'' (self_employed f) = Inr s \<and>
              code_for encs ''Property_Area'' (property_area f) = Inr a \<and>
              input_df =
                [(''Gender'', Some g), (''Married'', Some m), (''Dependents'', Some d),
                 (''Education'', Some e), (''Self_Employed'', Some s),
                 (''ApplicantIncome'', Some (applicant_income f)),
                 (''CoapplicantIncome'', Some (coapplicant_income f)),
                 (''LoanAmount'', Some (loan_amount f)),
                 (''Loan_Amount_Term'', Some (loan_amount_term f)),
                 (''Credit_History'', Some (credit_history f)),
                 (''Property_Area'', Some a)])"
proof -
  from script_Finished [OF assms] obtain input_df where
    df: "user_input_features encs f = Inr input_df" "msgs = handler model input_df" by blast
  from row_complete [OF df(1)] have "map fst input_df = feature_order"
    and "list_all (\<lambda>(c, v). v \<noteq> None) input_df" by simp_all
  with df row_values [OF df(1)] show ?thesis
    unfolding feature_order_def by (intro exI [of _ input_df] conjI)
qed

lemma scenario_1_codes:
  "code_for two_encoders ''Gender'' (gender scenario_1) = Inr 1"
  "code_for two_encoders ''Married'' (married scenario_1) = Inr 0"
  "dependents_code (Str (dependents scenario_1)) = Inr 0"
  "code_for two_encoders ''Education'' (education scenario_1) = Inr 0"
  "code_for two_encoders ''Self_Employed'' (self_employed scenario_1) = Inr 0"
  "code_for two_encoders ''Property_Area'' (property_area scenario_1) = Inr 2"
  by (simp_all add: code_for_def two_encoders_def scenario_1_def first_def
      dependents_code_def int_of_str_simps)

theorem feature_vector_order_witness:
  "loan_model_file example_files = Inr (RandomForestClassifier two_trees) \<and>
   label_encoders_file example_files = Inr two_encoders \<and>
   script example_files scenario_1 True = (scenario_1_msgs, Finished) \<and>
   (\<exists>input_df. user_input_features two_encoders scenario_1 = Inr input_df \<and>
      scenario_1_msgs = handler (RandomForestClassifier two_trees) input_df \<and>
      map fst input_df =
        [''Gender'', ''Married'', ''Dependents'', ''Education'', ''Self_Employed'',
         ''ApplicantIncome'', ''CoapplicantIncome'', ''LoanAmount'',
         ''Loan_Amount_Term'', ''Credit_History'', ''Property_Area''] \<and>
      list_all (\<lambda>(c, v). v \<noteq> None) input_df \<and>
      (\<exists>g m d e s a.
         code_for two_encoders ''Gender'' (gender scenario_1) = Inr g \<and>
         code_for two_encoders ''Married'' (married scenario_1) = Inr m \<and>
         dependents_code (Str (dependents scenario_1)) = Inr d \<and>
         code_for two_encoders ''Education'' (education scenario_1) = Inr e \<and>
         code_for two_encoders ''Self_Employed'' (self_employed scenario_1) = Inr s \<and>
         code_for two_encoders ''Property_Area'' (property_area scenario_1) = Inr a \<and>
         input_df =
           [(''Gender'', Some g), (''Married'', Some m), (''Dependents'', Some d),
            (''Education'', Some e), (''Self_Employed'', Some s),
            (''ApplicantIncome'', Some (applicant_income scenario_1)),
            (''CoapplicantIncome'', Some (coapplicant_income scenario_1)),
            (''LoanAmount'', Some (loan_amount scenario_1)),
            (''Loan_Amount_Term'', Some (loan_amount_term scenario_1)),
            (''Credit_History'', Some (credit_history scenario_1)),
            (''Property_Area'', Some a)])) \<and>
   user_input_features two_encoders scenario_1 = Inr scenario_1_df \<and>
   code_for two_encoders ''Gender'' (gender scenario_1) = Inr 1 \<and>
   code_for two_encoders ''Married'' (married scenario_1) = Inr 0 \<and>
   dependents_code (Str (dependents scenario_1)) = Inr 0 \<and>
   code_for two_encoders ''Education'' (education scenario_1) = Inr 0 \<and>
   code_for two_encoders ''Self_Employed'' (self_employed scenario_1) = Inr 0 \<and>
   code_for two_encoders ''Property_Area'' (property_area scenario_1) = Inr 2 \<and>
   scenario_1_df =
     [(''Gender'', Some 1), (''Married'', Some 0), (''Dependents'', Some 0),
      (''Education'', Some 0), (''Self_Employed'', Some 0),
      (''ApplicantIncome'', Some 5000), (''CoapplicantIncome'', Some 2000),
      (''LoanAmount'', Some 100), (''Loan_Amount_Term'', Some 360),
      (''Credit_History'', Some 1), (''Property_Area'', Some 2)]"
proof -
  have m: "loan_model_file example_files = Inr (RandomForestClassifier two_trees)"
    and e: "label_encoders_file example_files = Inr two_encoders"
    by (simp_all add: example_files_def)
  note w = feature_vector_order [OF m e scenario_1_run]
  have row: "scenario_1_df =
     [(''Gender'', Some 1), (''Married'', Some 0), (''Dependents'', Some 0),
      (''Education'', Some 0), (''Self_Employed'', Some 0),
      (''ApplicantIncome'', Some 5000), (''CoapplicantIncome'', Some 2000),
      (''LoanAmount'', Some 100), (''Loan_Amount_Term'', Some 360),
      (''Credit_History'', Some 1), (''Property_Area'', Some 2)]"
    by (simp only: scenario_1_df_def)
  from m e scenario_1_run w scenario_1_row scenario_1_codes row
  show ?thesis by (intro conjI)
qed

subsection \<open>The remarks under the result\<close>

lemma handler_cases:
  assumes "loan_model_file files = Inr model" and "label_encoders_file files = Inr encs"
    and "script files f True = (msgs, Finished)"
  obtains e where "msgs = [PredictionFailed e]"
  | r input_df where "user_input_features encs f = Inr input_df"
      and "msgs =
        [r, Chart [Some (applicant_income f), Some (coapplicant_income f), Some (loan_amount f)],
         Summary input_df, if credit_history f = 1 then GoodCredit else PoorCredit]
        @ (if 8000 < applicant_income f then [HighIncome] else [])
        @ (if 300 < loan_amount f then [LargeLoan] else [])"
      and "\<exists>p. r = Approved p \<or> r = NotApproved p"
proof -
  from script_Finished [OF assms] obtain input_df where
    df: "user_input_features encs f = Inr input_df" and msgs: "msgs = handler model input_df"
    by blast
  show thesis
  proof (cases "prediction_of model input_df")
    case (Inl e)
    with msgs have "msgs = [PredictionFailed e]" by (simp add: handler_row [OF df])
    then show thesis by (rule that(1))
  next
    case (Inr yp)
    obtain y p where yp: "yp = (y, p)" by (cases yp)
    show thesis
    proof (rule that(2) [OF df, of "if y = 1 then Approved p else NotApproved p"])
      from msgs Inr yp
      show "msgs =
        [if y = 1 then Approved p else NotApproved p,
         Chart [Some (applicant_income f), Some (coapplicant_income f), Some (loan_amount f)],
         Summary input_df, if credit_history f = 1 then GoodCredit else PoorCredit]
        @ (if 8000 < applicant_income f then [HighIncome] else [])
        @ (if 300 < loan_amount f then [LargeLoan] else [])"
        by (simp add: handler_row [OF df])
      show "\<exists>pa. (if y = 1 then Approved p else NotApproved p) = Approved pa \<or>
                 (if y = 1 then Approved p else NotApproved p) = NotApproved pa"
        by simp
    qed
  qed
qed

lemma high_income_row: "user_input_features two_encoders high_income = Inr high_income_df"
  by (simp add: user_input_features_def two_encoders_def high_income_def scenario_1_def
      high_income_df_def zip_cols code_for_def first_def dependents_code_def int_of_str_simps
      DataFrame_def feature_order_def)

lemma high_income_prediction:
  "prediction_of (RandomForestClassifier two_trees) high_income_df = Inr (1, 100)"
  by (simp add: prediction_of_def RandomForestClassifier_def forest_predict_def
      forest_predict_proba_def two_trees_def stump_votes_def high_income_df_def cell_def
      gt_def item_def argmax_def first_def)

lemma high_income_run:
  "script example_files high_income True = (high_income_msgs, Finished)"
  by (simp add: script_def example_files_def high_income_row handler_row [OF high_income_row]
      high_income_prediction high_income_msgs_def) (simp add: high_income_def scenario_1_def)

lemma one_class_prediction:
  "prediction_of (RandomForestClassifier one_class) input_df = Inl IndexError"
  by (simp add: prediction_of_def RandomForestClassifier_def forest_predict_def
      forest_predict_proba_def one_class_def item_def argmax_def first_def)

lemma one_class_run:
  "script one_class_files high_income True = ([PredictionFailed IndexError], Finished)"
  by (simp add: script_def one_class_files_def high_income_row
      handler_row [OF high_income_row] one_class_prediction)

text \<open>
  C5, as amended.  On every submission from the form, the two remarks on the credit
  history never appear together.  The good one is written if and only if the code is 1
  and the prediction did not fail, the poor one if and only if the code is 0 and the
  prediction did not fail: exactly one of them is written when the calls of the model
  returned, and none when the \<^verbatim>\<open>except\<close> clause reported a failure.
\<close>

theorem credit_history_flags:
  assumes "loan_model_file files = Inr model" and "label_encoders_file files = Inr encs"
    and "script files f True = (msgs, Finished)"
    and "credit_history f \<in> set credit_history_options"
  shows "\<not> (GoodCredit \<in> set msgs \<and> PoorCredit \<in> set msgs) \<and>
         (GoodCredit \<in> set msgs \<longleftrightarrow>
            credit_history f = 1 \<and> (\<forall>e. PredictionFailed e \<notin> set msgs)) \<and>
         (PoorCredit \<in> set msgs \<longleftrightarrow>
            credit_history f = 0 \<and> (\<forall>e. PredictionFailed e \<notin> set msgs)) \<and>
         count_list msgs GoodCredit + count_list msgs PoorCredit =
           (if \<forall>e. PredictionFailed e \<notin> set msgs then 1 else 0)"
proof -
  from assms(4) have ch: "credit_history f = 1 \<or> credit_history f = 0"
    by (simp add: credit_history_options_def)
  from assms(1-3) show ?thesis
  proof (cases rule: handler_cases)
    case (1 e)
    have "\<not> (\<forall>e'. PredictionFailed e' \<notin> set msgs)" unfolding 1 by simp
    then show ?thesis unfolding 1 by simp
  next
    case (2 r input_df)
    from 2(3) have r: "r \<noteq> GoodCredit" "r \<noteq> PoorCredit" "\<forall>e. PredictionFailed e \<noteq> r"
      by auto
    then have none: "\<forall>e. PredictionFailed e \<notin> set msgs" unfolding 2(2) by simp
    from ch show ?thesis
    proof
      assume "credit_history f = 1"
      with r none show ?thesis unfolding 2(2) by simp
    next
      assume "credit_history f = 0"
      with r none show ?thesis unfolding 2(2) by simp
    qed
  qed
qed

theorem credit_history_flags_witness:
  "loan_model_file example_files = Inr (RandomForestClassifier two_trees) \<and>
   label_encoders_file example_files = Inr two_encoders \<and>
   script example_files scenario_1 True = (scenario_1_msgs, Finished) \<and>
   credit_history scenario_1 \<in> set credit_history_options \<and>
   (\<forall>e. PredictionFailed e \<notin> set scenario_1_msgs) \<and>
   GoodCredit \<in> set scenario_1_msgs \<and> PoorCredit \<notin> set scenario_1_msgs \<and>
   credit_history scenario_1 = 1 \<and>
   count_list scenario_1_msgs GoodCredit + count_list scenario_1_msgs PoorCredit = 1"
proof -
  have m: "loan_model_file example_files = Inr (RandomForestClassifier two_trees)"
    and e: "label_encoders_file example_files = Inr two_encoders"
    by (simp_all add: example_files_def)
  have c: "credit_history scenario_1 \<in> set credit_history_options"
    "credit_history scenario_1 = 1"
    by (simp_all add: scenario_1_def credit_history_options_def)
  have n: "\<forall>e. PredictionFailed e \<notin> set scenario_1_msgs"
    by (simp add: scenario_1_msgs_def)
  note w = credit_history_flags [OF m e scenario_1_run c(1)]
  from w n c(2) have "GoodCredit \<in> set scenario_1_msgs" by blast
  moreover from w n c(2) have "PoorCredit \<notin> set scenario_1_msgs" by blast
  moreover from w n
  have "count_list scenario_1_msgs GoodCredit + count_list scenario_1_msgs PoorCredit = 1"
    by simp
  ultimately show ?thesis using m e scenario_1_run c n by (intro conjI)
qed

text \<open>
  C5, as stated, fails: the model was fitted on a training set with a single class, so
  that \<^verbatim>\<open>predict_proba(input_df)[0][1]\<close> raises on line 64; the row is submitted with
  the credit history 1 and the page shows the failure and neither remark.
\<close>

theorem credit_history_flags_counterexample:
  "script one_class_files high_income True = ([PredictionFailed IndexError], Finished) \<and>
   credit_history high_income = 1 \<and>
   GoodCredit \<notin> set [PredictionFailed IndexError] \<and>
   PoorCredit \<notin> set [PredictionFailed IndexError]"
  using one_class_run by (simp add: high_income_def scenario_1_def)

text \<open>
  C6, as amended.  On every submission, the remark on a high income is written if and
  only if the applicant income of the row is above 8000 and the prediction did not
  fail, and the remark on a large loan if and only if the loan amount of the row is
  above 300 and the prediction did not fail.  What is written depends on the row alone:
  another form that gives the same row gives the same page, and so does the same form
  after any earlier interactions of the session.
\<close>

theorem income_and_loan_flags:
  assumes "loan_model_file files = Inr model" and "label_encoders_file files = Inr encs"
    and "script files f True = (msgs, Finished)"
  shows "(HighIncome \<in> set msgs \<longleftrightarrow>
            8000 < applicant_income f \<and> (\<forall>e. PredictionFailed e \<notin> set msgs)) \<and>
         (LargeLoan \<in> set msgs \<longleftrightarrow>
            300 < loan_amount f \<and> (\<forall>e. PredictionFailed e \<notin> set msgs)) \<and>
         (\<exists>input_df. user_input_features encs f = Inr input_df \<and>
            cell input_df ''ApplicantIncome'' = Inr (Some (applicant_income f)) \<and>
            cell input_df ''LoanAmount'' = Inr (Some (loan_amount f)) \<and>
            (\<forall>f'. user_input_features encs f' = Inr input_df \<longrightarrow>
                  script files f' True = (msgs, Finished))) \<and>
         (\<forall>prior. last (session files (prior @ [(f, True)])) = (msgs, Finished))"
proof (intro conjI)
  from assms(1-3) show "HighIncome \<in> set msgs \<longleftrightarrow>
            8000 < applicant_income f \<and> (\<forall>e. PredictionFailed e \<notin> set msgs)"
  proof (cases rule: handler_cases)
    case (1 e)
    have "\<not> (\<forall>e'. PredictionFailed e' \<notin> set msgs)" unfolding 1 by simp
    then show ?thesis unfolding 1 by simp
  next
    case (2 r input_df)
    from 2(3) have "r \<noteq> HighIncome" "\<forall>e. PredictionFailed e \<noteq> r" by auto
    then show ?thesis unfolding 2(2) by simp
  qed
  from assms(1-3) show "LargeLoan \<in> set msgs \<longleftrightarrow>
            300 < loan_amount f \<and> (\<forall>e. PredictionFailed e \<notin> set msgs)"
  proof (cases rule: handler_cases)
    case (1 e)
    have "\<not> (\<forall>e'. PredictionFailed e' \<notin> set msgs)" unfolding 1 by simp
    then show ?thesis unfolding 1 by simp
  next
    case (2 r input_df)
    from 2(3) have "r \<noteq> LargeLoan" "\<forall>e. PredictionFailed e \<noteq> r" by auto
    then show ?thesis unfolding 2(2) by simp
  qed
  from script_Finished [OF assms(1-3)] obtain input_df where
    df: "user_input_features encs f = Inr input_df" and msgs: "msgs = handler model input_df"
    by blast
  have "script files f' True = (msgs, Finished)"
    if "user_input_features encs f' = Inr input_df" for f'
    using that msgs by (simp add: script_loaded [OF assms(1,2)])
  with df cells(1,3) [OF df]
  show "\<exists>input_df. user_input_features encs f = Inr input_df \<and>
            cell input_df ''ApplicantIncome'' = Inr (Some (applicant_income f)) \<and>
            cell input_df ''LoanAmount'' = Inr (Some (loan_amount f)) \<and>
            (\<forall>f'. user_input_features encs f' = Inr input_df \<longrightarrow>
                  script files f' True = (msgs, Finished))"
    by (intro exI [of _ input_df] conjI allI impI)
  from assms(3) show "\<forall>prior. last (session files (prior @ [(f, True)])) = (msgs, Finished)"
    by (simp add: session_def)
qed

theorem income_and_loan_flags_witness:
  "loan_model_file example_files = Inr (RandomForestClassifier two_trees) \<and>
   label_encoders_file example_files = Inr two_encoders \<and>
   script example_files high_income True = (high_income_msgs, Finished) \<and>
   (\<forall>e. PredictionFailed e \<notin> set high_income_msgs) \<and>
   8000 < applicant_income high_income \<and> HighIncome \<in> set high_income_msgs \<and>
   300 < loan_amount high_income \<and> LargeLoan \<in> set high_income_msgs \<and>
   last (session example_files [(semiurban_form, True), (high_income, True)]) =
     (high_income_msgs, Finished)"
proof -
  have m: "loan_model_file example_files = Inr (RandomForestClassifier two_trees)"
    and e: "label_encoders_file example_files = Inr two_encoders"
    by (simp_all add: example_files_def)
  have n: "\<forall>e. PredictionFailed e \<notin> set high_income_msgs"
    by (simp add: high_income_msgs_def)
  have v: "8000 < applicant_income high_income" "300 < loan_amount high_income"
    by (simp_all add: high_income_def scenario_1_def)
  note w = income_and_loan_flags [OF m e high_income_run]
  from w v n have "HighIncome \<in> set high_income_msgs" "LargeLoan \<in> set high_income_msgs"
    by simp_all
  moreover from w
  have "last (session example_files ([(semiurban_form, True)] @ [(high_income, True)])) =
     (high_income_msgs, Finished)"
    by (elim conjE) (erule allE)
  ultimately show ?thesis using m e high_income_run n v by simp
qed

text \<open>
  C6, as stated, fails: with the model fitted on a single class, the row is submitted
  with an applicant income of 9000 and a loan amount of 350, and the page shows the
  failure of the prediction and neither remark.
\<close>

theorem income_and_loan_flags_counterexample:
  "script one_class_files high_income True = ([PredictionFailed IndexError], Finished) \<and>
   8000 < applicant_income high_income \<and>
   HighIncome \<notin> set [PredictionFailed IndexError] \<and>
   300 < loan_amount high_income \<and>
   LargeLoan \<notin> set [PredictionFailed IndexError]"
  using one_class_run by (simp add: high_income_def scenario_1_def)

subsection \<open>Loading the artifacts\<close>

text \<open>
  C9.  When loading the model fails, or the model loads and loading the encoders fails,
  the run shows the loading error and stops at once: whatever the form holds and
  whether or not the button was pressed, nothing else is written, so no prediction is
  made.  The same holds for every further run of the session.
\<close>

theorem load_failure_stops:
  assumes "loan_model_file files = Inl e \<or>
           (\<exists>model. loan_model_file files = Inr model \<and> label_encoders_file files = Inl e)"
  shows "script files f button = ([LoadFailed e], Stopped) \<and>
         session files interactions = map (\<lambda>i. ([LoadFailed e], Stopped)) interactions"
proof -
  have run: "script files g b = ([LoadFailed e], Stopped)" for g b
    using assms by (auto simp: script_def)
  then show ?thesis by (simp add: session_def split_def)
qed

theorem load_failure_stops_witness:
  "(loan_model_file unreadable_encoders = Inl OSError \<or>
    (\<exists>model. loan_model_file unreadable_encoders = Inr model \<and>
       label_encoders_file unreadable_encoders = Inl OSError)) \<and>
   script unreadable_encoders scenario_1 True = ([LoadFailed OSError], Stopped) \<and>
   session unreadable_encoders [(scenario_1, False), (scenario_1, True)] =
     [([LoadFailed OSError], Stopped), ([LoadFailed OSError], Stopped)]"
proof -
  have h: "loan_model_file unreadable_encoders = Inl OSError \<or>
    (\<exists>model. loan_model_file unreadable_encoders = Inr model \<and>
       label_encoders_file unreadable_encoders = Inl OSError)"
    by (simp add: unreadable_encoders_def)
  from load_failure_stops [OF h, of scenario_1 True "[(scenario_1, False), (scenario_1, True)]"] h
  show ?thesis by simp
qed

subsection \<open>A label the encoder has not seen\<close>

lemma semiurban_raises:
  "user_input_features rural_urban_encoders semiurban_form = Inl ValueError"
  by (simp add: user_input_features_def rural_urban_encoders_def semiurban_form_def
      scenario_1_def zip_cols code_for_def first_def)

text \<open>
  C1.  The encoders were fitted on a data set without semi-urban properties and the
  user chooses the semi-urban area.  The \<open>ValueError\<close> of \<^verbatim>\<open>transform\<close> is raised
  on line 58, outside every \<^verbatim>\<open>try\<close> block of the script: the run ends with the
  exception, before and after the button is pressed, and the handler of the prediction,
  which would have reported it, is never reached.
\<close>

theorem unseen_label_is_not_caught:
  "script rural_urban_files semiurban_form True = ([], Raised ValueError) \<and>
   script rural_urban_files semiurban_form False = ([], Raised ValueError) \<and>
   script rural_urban_files semiurban_form True \<noteq> ([PredictionFailed ValueError], Finished)"
  by (simp add: script_def rural_urban_files_def semiurban_raises)

subsection \<open>Which columns have an encoder\<close>

lemma fit_encoders_dom:
  "fit_encoders cols df encs = Inr (df', encs') \<Longrightarrow> dom encs' = dom encs \<union> set cols"
proof (induction cols df encs rule: fit_encoders.induct)
  case (1 df encs)
  then show ?case by simp
next
  case (2 col rest df encs)
  from "2.prems" obtain ys le codes where
    "map_of df col = Some ys" "fit ys = Inr le" "transform le ys = Inr codes"
    and rest: "fit_encoders rest (set_column df col (map Num codes)) (encs(col \<mapsto> le)) =
                 Inr (df', encs')"
    by (auto split: option.splits sum.splits)
  from "2.IH" [OF this] show ?case by auto
qed

lemma preprocess_dom:
  assumes "preprocess csv = Inr (df, encs)"
  shows "dom encs = set encoded_cols"
proof -
  from assms obtain df' where "fit_encoders encoded_cols df' Map.empty = Inr (df, encs)"
    by (auto simp: preprocess_def split: sum.splits)
  from fit_encoders_dom [OF this] show ?thesis by simp
qed

lemma train_model_encoders:
  assumes "train_model fit_model csv = Inr (model, encs)"
  shows "\<exists>df. preprocess csv = Inr (df, encs)"
  using assms by (auto simp: train_model_def split: sum.splits option.splits)

lemma user_input_features_cong:
  assumes "\<forall>col \<in> set categorical_cols. encs1 col = encs2 col"
  shows "user_input_features encs1 f = user_input_features encs2 f"
proof -
  from assms have "\<forall>(col, value) \<in> set (zip categorical_cols (categorical_values f)).
      encs1 col = encs2 col"
    by (auto dest: set_zip_leftD)
  from encode_loop_cong [OF this] show ?thesis by (simp add: user_input_features_def)
qed

lemma not_categorical:
  "c \<in> set [''Dependents'', ''ApplicantIncome'', ''CoapplicantIncome'', ''LoanAmount'',
             ''Loan_Amount_Term'', ''Credit_History''] \<Longrightarrow> c \<notin> set categorical_cols"
  by (auto simp: categorical_cols_def)

lemma preprocess_small: "preprocess small_csv = Inr (small_encoded, rural_urban_encoders)"
  by (simp add: preprocess_def drop_column_def small_csv_def impute_def most_frequent_def
      observed_def most_frequent_count_def py_min_def replace_all_def replace_3plus_def
      encoded_cols_def fit_def set_column_def small_encoded_def rural_urban_encoders_def)

lemma train_small:
  "train_model fit_two_trees small_csv = Inr (two_trees, rural_urban_encoders)"
  by (simp add: train_model_def preprocess_small fit_two_trees_def drop_column_def
      small_encoded_def)

text \<open>
  C10.  The dictionary that the Trainer saves has an encoder for exactly the six columns
  Gender, Married, Education, Self\_Employed, Property\_Area and Loan\_Status, and none
  for Dependents.  The row that the Predictor builds depends on the encoders of the five
  categorical columns only: whatever is stored under Dependents, ApplicantIncome,
  CoapplicantIncome, LoanAmount, Loan\_Amount\_Term or Credit\_History is never
  consulted.
\<close>

theorem encoders_for_six_columns:
  "(train_model fit_model csv = Inr (model, encs) \<longrightarrow>
      dom encs =
        {''Gender'', ''Married'', ''Education'', ''Self_Employed'', ''Property_Area'',
         ''Loan_Status''} \<and>
      encs ''Dependents'' = None) \<and>
   ((\<forall>col \<in> set categorical_cols. encs1 col = encs2 col) \<longrightarrow>
      user_input_features encs1 f = user_input_features encs2 f) \<and>
   (\<forall>c \<in> set [''Dependents'', ''ApplicantIncome'', ''CoapplicantIncome'', ''LoanAmount'',
               ''Loan_Amount_Term'', ''Credit_History''].
      \<forall>x. user_input_features (encs1(c := x)) f = user_input_features encs1 f)"
proof (intro conjI impI ballI allI)
  assume "train_model fit_model csv = Inr (model, encs)"
  from train_model_encoders [OF this] obtain df where "preprocess csv = Inr (df, encs)" ..
  from preprocess_dom [OF this]
  show d: "dom encs =
        {''Gender'', ''Married'', ''Education'', ''Self_Employed'', ''Property_Area'',
         ''Loan_Status''}"
    by (simp add: encoded_cols_def)
  have "''Dependents'' \<notin> dom encs" unfolding d by simp
  then show "encs ''Dependents'' = None" by blast
next
  assume "\<forall>col \<in> set categorical_cols. encs1 col = encs2 col"
  then show "user_input_features encs1 f = user_input_features encs2 f"
    by (rule user_input_features_cong)
next
  fix c x
  assume "c \<in> set [''Dependents'', ''ApplicantIncome'', ''CoapplicantIncome'', ''LoanAmount'',
               ''Loan_Amount_Term'', ''Credit_History'']"
  from not_categorical [OF this]
  have "\<forall>col \<in> set categorical_cols. (encs1(c := x)) col = encs1 col" by auto
  then show "user_input_features (encs1(c := x)) f = user_input_features encs1 f"
    by (rule user_input_features_cong)
qed

theorem encoders_for_six_columns_witness:
  "train_model fit_two_trees small_csv = Inr (two_trees, rural_urban_encoders) \<and>
   Str ''3+'' \<in> set (the (map_of small_csv ''Dependents'')) \<and>
   dom rural_urban_encoders =
     {''Gender'', ''Married'', ''Education'', ''Self_Employed'', ''Property_Area'',
      ''Loan_Status''} \<and>
   rural_urban_encoders ''Dependents'' = None \<and>
   list_all (\<lambda>col. (rural_urban_encoders(''Loan_Status'' := None)) col =
                   rural_urban_encoders col) categorical_cols \<and>
   user_input_features (rural_urban_encoders(''Loan_Status'' := None)) scenario_1 =
     user_input_features rural_urban_encoders scenario_1 \<and>
   user_input_features
     (rural_urban_encoders(''Dependents'' \<mapsto> \<lparr>classes = [Str ''0'', Str ''3+'']\<rparr>)) scenario_1 =
     user_input_features rural_urban_encoders scenario_1"
proof -
  note w = encoders_for_six_columns [of fit_two_trees small_csv two_trees rural_urban_encoders
      "rural_urban_encoders(''Loan_Status'' := None)" rural_urban_encoders scenario_1]
  have agree: "\<forall>col \<in> set categorical_cols.
      (rural_urban_encoders(''Loan_Status'' := None)) col = rural_urban_encoders col"
    by (simp add: categorical_cols_def)
  have dep: "Str ''3+'' \<in> set (the (map_of small_csv ''Dependents''))"
    by (simp add: small_csv_def)
  note w1 = w [THEN conjunct1, THEN mp, OF train_small]
  note w2 = w [THEN conjunct2, THEN conjunct1, THEN mp, OF agree]
  note w3 = encoders_for_six_columns [of fit_two_trees small_csv two_trees rural_urban_encoders
      rural_urban_encoders rural_urban_encoders scenario_1, THEN conjunct2, THEN conjunct2]
  from w3 have "user_input_features
     (rural_urban_encoders(''Dependents'' \<mapsto> \<lparr>classes = [Str ''0'', Str ''3+'']\<rparr>)) scenario_1 =
     user_input_features rural_urban_encoders scenario_1"
    by simp
  with train_small dep agree w1 [THEN conjunct1] w1 [THEN conjunct2] w2
  show ?thesis unfolding list_all_iff by (intro conjI)
qed

subsection \<open>The most frequent value\<close>

lemma min_from_mem: "min_from best vs = Inr m \<Longrightarrow> m \<in> set (best # vs)"
  by (induction vs arbitrary: best) (auto split: sum.splits if_splits)

lemma py_min_mem: "py_min vs = Inr m \<Longrightarrow> m \<in> set vs"
  by (cases vs) (auto simp: py_min_def dest: min_from_mem)

lemma fold_max_ge_init: "(a::nat) \<le> fold max ns a"
proof (induction ns arbitrary: a)
  case Nil
  show ?case by simp
next
  case (Cons n ns)
  have "a \<le> max n a" by simp
  also have "max n a \<le> fold max ns (max n a)" by (rule Cons.IH)
  finally show ?case by simp
qed

lemma fold_max_ge: "x \<in> set ns \<Longrightarrow> (x::nat) \<le> fold max ns a"
proof (induction ns arbitrary: a)
  case Nil
  then show ?case by simp
next
  case (Cons n ns)
  show ?case
  proof (cases "x = n")
    case True
    have "x \<le> max n a" using True by simp
    also have "max n a \<le> fold max ns (max n a)" by (rule fold_max_ge_init)
    finally show ?thesis by simp
  next
    case False
    with Cons.prems have "x \<in> set ns" by simp
    from Cons.IH [OF this] show ?thesis by simp
  qed
qed

lemma most_frequent_count_ge: "v \<in> set xs \<Longrightarrow> count_list xs v \<le> most_frequent_count xs"
  unfolding most_frequent_count_def by (rule fold_max_ge) simp

lemma count_list_observed: "v \<noteq> NaN \<Longrightarrow> count_list (observed xs) v = count_list xs v"
  by (induction xs) (auto simp: observed_def)

lemma set_observed: "set (observed xs) = set xs - {NaN}"
  by (auto simp: observed_def)

lemma most_frequent_Inr:
  assumes "most_frequent xs = Inr stat" and "stat \<noteq> NaN"
  shows "stat \<in> set xs"
    and "\<forall>v \<in> set xs. v \<noteq> NaN \<longrightarrow> count_list xs v \<le> count_list xs stat"
proof -
  let ?obs = "observed xs"
  from assms have obs: "?obs \<noteq> []"
    by (auto simp: most_frequent_def Let_def split: if_splits)
  with assms(1) have
    "py_min (filter (\<lambda>v. count_list ?obs v = most_frequent_count ?obs) (remdups ?obs)) = Inr stat"
    by (simp add: most_frequent_def Let_def)
  from py_min_mem [OF this] have mem: "stat \<in> set ?obs"
    and top: "count_list ?obs stat = most_frequent_count ?obs" by simp_all
  from mem show "stat \<in> set xs" by (simp add: set_observed)
  show "\<forall>v \<in> set xs. v \<noteq> NaN \<longrightarrow> count_list xs v \<le> count_list xs stat"
  proof (intro ballI impI)
    fix v assume v: "v \<in> set xs" "v \<noteq> NaN"
    then have "v \<in> set ?obs" by (simp add: set_observed)
    from most_frequent_count_ge [OF this] top
    have "count_list ?obs v \<le> count_list ?obs stat" by simp
    with v(2) assms(2) show "count_list xs v \<le> count_list xs stat"
      by (simp add: count_list_observed)
  qed
qed

lemma fit_transform_imputer_length:
  "fit_transform_imputer df = Inr cols \<Longrightarrow> length cols \<le> length df"
proof (induction df arbitrary: cols rule: fit_transform_imputer.induct)
  case 1
  then show ?case by simp
next
  case (2 c xs rest)
  from "2.prems" obtain stat cols' where
    stat: "most_frequent xs = Inr stat" and rest: "fit_transform_imputer rest = Inr cols'"
    and cols: "cols = (if stat = NaN then cols'
                       else (c, map (\<lambda>v. if v = NaN then stat else v) xs) # cols')"
    by (auto split: sum.splits if_splits)
  from "2.IH" [OF stat rest] cols show ?case by (simp split: if_splits)
qed

lemma fit_transform_imputer_full:
  "fit_transform_imputer df = Inr cols \<Longrightarrow> length cols = length df \<Longrightarrow>
     list_all2 (\<lambda>old new. fst new = fst old \<and>
        (\<exists>stat. stat \<in> set (snd old) \<and> stat \<noteq> NaN \<and>
           (\<forall>v \<in> set (snd old). v \<noteq> NaN \<longrightarrow>
              count_list (snd old) v \<le> count_list (snd old) stat) \<and>
           snd new = map (\<lambda>v. if v = NaN then stat else v) (snd old))) df cols"
  (is "_ \<Longrightarrow> _ \<Longrightarrow> list_all2 ?imputed df cols")
proof (induction df arbitrary: cols rule: fit_transform_imputer.induct)
  case 1
  then show ?case by simp
next
  case (2 c xs rest)
  from "2.prems"(1) obtain stat cols' where
    stat: "most_frequent xs = Inr stat" and rest: "fit_transform_imputer rest = Inr cols'"
    and cols: "cols = (if stat = NaN then cols'
                       else (c, map (\<lambda>v. if v = NaN then stat else v) xs) # cols')"
    by (auto split: sum.splits if_splits)
  from fit_transform_imputer_length [OF rest] have le: "length cols' \<le> length rest" .
  with "2.prems"(2) cols have ne: "stat \<noteq> NaN" by (auto split: if_splits)
  with cols "2.prems"(2) have len: "length cols' = length rest"
    and cols': "cols = (c, map (\<lambda>v. if v = NaN then stat else v) xs) # cols'" by simp_all
  from most_frequent_Inr [OF stat ne] ne
  have "?imputed (c, xs) (c, map (\<lambda>v. if v = NaN then stat else v) xs)"
    by (intro conjI exI [of _ stat]) simp_all
  with "2.IH" [OF stat rest len] cols' show ?case by simp
qed

lemma impute_Inr:
  assumes "impute df = Inr df'"
  shows "list_all2 (\<lambda>old new. fst new = fst old \<and>
        (\<exists>stat. stat \<in> set (snd old) \<and> stat \<noteq> NaN \<and>
           (\<forall>v \<in> set (snd old). v \<noteq> NaN \<longrightarrow>
              count_list (snd old) v \<le> count_list (snd old) stat) \<and>
           snd new = map (\<lambda>v. if v = NaN then stat else v) (snd old))) df df'"
proof -
  from assms obtain cols where cols: "fit_transform_imputer df = Inr cols"
    and len: "length cols = length df"
    and df': "df' = map (\<lambda>(c, col). (c, snd col)) (zip (map fst df) cols)"
    by (auto simp: impute_def split: if_splits sum.splits)
  note all = fit_transform_imputer_full [OF cols len]
  then have "map (\<lambda>(c, col). (c, snd col)) (zip (map fst df) cols) = cols"
    by (induction df cols rule: list_all2_induct) auto
  with df' all show ?thesis by simp
qed

subsection \<open>When the imputation succeeds\<close>

lemma min_from_num:
  "is_num best \<Longrightarrow> list_all is_num vs \<Longrightarrow> \<exists>m. min_from best vs = Inr m"
proof (induction vs arbitrary: best)
  case Nil
  show ?case by simp
next
  case (Cons v vs)
  from Cons.prems obtain a b where ab: "best = Num a" "v = Num b"
    by (cases best; cases v) auto
  from Cons.prems have "list_all is_num vs" by simp
  with Cons.IH [of "if b < a then v else best"] ab show ?case by auto
qed

lemma min_from_str:
  "is_str best \<Longrightarrow> list_all is_str vs \<Longrightarrow> \<exists>m. min_from best vs = Inr m"
proof (induction vs arbitrary: best)
  case Nil
  show ?case by simp
next
  case (Cons v vs)
  from Cons.prems obtain a b where ab: "best = Str a" "v = Str b"
    by (cases best; cases v) auto
  from Cons.prems have "list_all is_str vs" by simp
  with Cons.IH [of "if b < a then v else best"] ab show ?case by auto
qed

lemma py_min_uniform:
  assumes "vs \<noteq> []" and "list_all is_num vs \<or> list_all is_str vs"
  shows "\<exists>m. py_min vs = Inr m"
proof -
  from assms(1) obtain v rest where vs: "vs = v # rest" by (cases vs) auto
  from assms(2) show ?thesis
  proof
    assume "list_all is_num vs"
    with vs min_from_num [of v rest] show ?thesis by (simp add: py_min_def)
  next
    assume "list_all is_str vs"
    with vs min_from_str [of v rest] show ?thesis by (simp add: py_min_def)
  qed
qed

lemma observed_uniform:
  "csv_column xs \<Longrightarrow> list_all is_num (observed xs) \<or> list_all is_str (observed xs)"
  by (auto simp: csv_column_def observed_def list_all_iff)

lemma most_frequent_csv_column:
  assumes "csv_column xs" and "observed xs \<noteq> []"
  shows "\<exists>stat. most_frequent xs = Inr stat \<and> stat \<noteq> NaN"
proof -
  let ?obs = "observed xs"
  let ?cands = "filter (\<lambda>v. count_list ?obs v = most_frequent_count ?obs) (remdups ?obs)"
  have "most_frequent_count ?obs \<in> set (map (count_list ?obs) ?obs)"
  proof -
    from assms(2) obtain v rest where obs: "?obs = v # rest" by (cases ?obs) auto
    have "fold max ns a \<in> set (a # ns)" for ns and a :: nat
      by (induction ns arbitrary: a) (auto simp: max_def)
    from this [of "map (count_list ?obs) ?obs" 0]
    have "most_frequent_count ?obs = 0 \<or>
          most_frequent_count ?obs \<in> set (map (count_list ?obs) ?obs)"
      by (simp add: most_frequent_count_def)
    moreover have "v \<in> set ?obs" by (simp add: obs)
    then have "count_list ?obs v \<noteq> 0" by (simp only: count_list_0_iff) simp
    then have "0 < count_list ?obs v" by simp
    with most_frequent_count_ge [of v ?obs] \<open>v \<in> set ?obs\<close>
    have "most_frequent_count ?obs \<noteq> 0" by simp
    ultimately show ?thesis by simp
  qed
  then obtain w where "w \<in> set ?obs" "count_list ?obs w = most_frequent_count ?obs" by auto
  then have ne: "?cands \<noteq> []" by (auto simp: filter_empty_conv)
  from observed_uniform [OF assms(1)]
  have "list_all is_num ?cands \<or> list_all is_str ?cands" by (auto simp: list_all_iff)
  from py_min_uniform [OF ne this] obtain m where m: "py_min ?cands = Inr m" ..
  from py_min_mem [OF m] have "m \<in> set ?obs" by simp
  then have "m \<noteq> NaN" by (simp add: set_observed)
  with m assms(2) show ?thesis by (simp add: most_frequent_def Let_def)
qed

lemma fit_transform_imputer_total:
  "\<forall>(c, xs) \<in> set df. csv_column xs \<and> observed xs \<noteq> [] \<Longrightarrow>
     \<exists>cols. fit_transform_imputer df = Inr cols \<and> length cols = length df"
proof (induction df rule: fit_transform_imputer.induct)
  case 1
  show ?case by simp
next
  case (2 c xs rest)
  from "2.prems" have "csv_column xs" "observed xs \<noteq> []" by auto
  from most_frequent_csv_column [OF this] obtain stat where
    stat: "most_frequent xs = Inr stat" "stat \<noteq> NaN" by blast
  from "2.prems" have "\<forall>(c, xs) \<in> set rest. csv_column xs \<and> observed xs \<noteq> []" by auto
  from "2.IH" [OF stat(1) this] stat show ?case by auto
qed

lemma impute_total:
  assumes "df \<noteq> []" and "\<forall>(c, xs) \<in> set df. csv_column xs \<and> observed xs \<noteq> []"
  shows "\<exists>df'. impute df = Inr df'"
  using fit_transform_imputer_total [OF assms(2)] assms(1) by (auto simp: impute_def)

subsection \<open>No missing value after the imputation\<close>

lemma impute_small: "impute small_df = Inr small_imputed"
  by (simp add: small_df_def small_csv_def small_imputed_def impute_def most_frequent_def
      observed_def most_frequent_count_def py_min_def)

text \<open>
  C8.  When the imputation step of the Trainer returns, the frame has the same columns,
  no cell of any column is missing, and every column is the old one with each missing
  cell replaced by one value of that column alone: a value observed in the column that
  occurs there at least as often as every other observed value.  The step does return
  on every frame that has a column and in which every column, as read from the file,
  holds an observed value.
\<close>

theorem imputation_leaves_no_null:
  "(impute df = Inr df' \<longrightarrow>
      map fst df' = map fst df \<and>
      (\<forall>(c, xs') \<in> set df'. NaN \<notin> set xs') \<and>
      list_all2 (\<lambda>old new. fst new = fst old \<and>
        (\<exists>stat. stat \<in> set (snd old) \<and> stat \<noteq> NaN \<and>
           (\<forall>v \<in> set (snd old). v \<noteq> NaN \<longrightarrow>
              count_list (snd old) v \<le> count_list (snd old) stat) \<and>
           snd new = map (\<lambda>v. if v = NaN then stat else v) (snd old))) df df') \<and>
   (df \<noteq> [] \<and> (\<forall>(c, xs) \<in> set df. csv_column xs \<and> observed xs \<noteq> []) \<longrightarrow>
      (\<exists>df'. impute df = Inr df'))"
proof (intro conjI impI)
  assume ok: "impute df = Inr df'"
  note all = impute_Inr [OF ok]
  then show "map fst df' = map fst df"
    by (induction df df' rule: list_all2_induct) auto
  from all show "\<forall>(c, xs') \<in> set df'. NaN \<notin> set xs'"
    by (induction df df' rule: list_all2_induct) auto
  from all show "list_all2 (\<lambda>old new. fst new = fst old \<and>
        (\<exists>stat. stat \<in> set (snd old) \<and> stat \<noteq> NaN \<and>
           (\<forall>v \<in> set (snd old). v \<noteq> NaN \<longrightarrow>
              count_list (snd old) v \<le> count_list (snd old) stat) \<and>
           snd new = map (\<lambda>v. if v = NaN then stat else v) (snd old))) df df'" .
next
  assume "df \<noteq> [] \<and> (\<forall>(c, xs) \<in> set df. csv_column xs \<and> observed xs \<noteq> [])"
  then show "\<exists>df'. impute df = Inr df'" by (intro impute_total) simp_all
qed

theorem imputation_leaves_no_null_witness:
  "impute small_df = Inr small_imputed \<and>
   NaN \<in> set (snd (small_df ! 0)) \<and>
   map fst small_imputed = map fst small_df \<and>
   list_all (\<lambda>(c, xs'). NaN \<notin> set xs') small_imputed \<and>
   small_df \<noteq> [] \<and>
   list_all (\<lambda>(c, xs). csv_column xs \<and> observed xs \<noteq> []) small_df \<and>
   (\<exists>df'. impute small_df = Inr df')"
proof -
  note w = imputation_leaves_no_null [of small_df small_imputed]
  note w1 = w [THEN conjunct1, THEN mp, OF impute_small]
  have nan: "NaN \<in> set (snd (small_df ! 0))"
    by (simp add: small_df_def small_csv_def)
  have cols: "small_df \<noteq> [] \<and>
     (\<forall>(c, xs) \<in> set small_df. csv_column xs \<and> observed xs \<noteq> [])"
    by (simp add: small_df_def small_csv_def csv_column_def observed_def)
  note w2 = w [THEN conjunct2, THEN mp, OF cols]
  from impute_small nan w1 [THEN conjunct1] w1 [THEN conjunct2, THEN conjunct1]
    cols [THEN conjunct1] cols [THEN conjunct2] w2
  show ?thesis unfolding list_all_iff by (intro conjI)
qed

subsection \<open>The decision and the percentage\<close>





subsection \<open>A tie of the votes\<close>






end
